theory Spec2Isabelle
  imports Complex_Main "HOL-Library.AList"
begin

section \<open>Signals\<close>

text \<open>
  JavaScript numbers. Millisecond times, windows, cooldowns, capacities and counts are
  integers, on which the arithmetic of doubles is exact; they are \<open>int\<close> and \<open>nat\<close>.
  A confidence, or a number computed from confidences, is a \<open>real\<close> that stands for the
  double nearest to it. The operations of the runtime on such numbers are not defined
  here: they are the parameter \<open>fp\<close> of every function that computes with confidences, and
  nothing is assumed of them, so that what is proved holds of IEEE arithmetic with its
  rounding. The three rates of a metrics snapshot are the exception, see \<open>getMetrics\<close>.

  \<open>Date.now()\<close> is the parameter \<open>now\<close> of every operation; all reads of the clock inside
  one call return the same value.

  A timestamp is an ISO string. \<open>ISO t\<close> stands for a string that \<open>Date\<close> parses to \<open>t\<close>
  milliseconds (what \<open>new Date(t).toISOString()\<close> produces); \<open>Unparsed s\<close> is a string \<open>s\<close>
  that does not parse, for which \<open>getTime()\<close> is NaN.
\<close>

datatype timestamp = ISO int | Unparsed string

fun getTime :: "timestamp \<Rightarrow> int option" where
  "getTime (ISO t) = Some t"
| "getTime (Unparsed s) = None"

text \<open>
  The operations on numbers that the engine uses: \<open>+\<close>, \<open>*\<close>, \<open>/\<close>, \<open>>=\<close>, \<open>>\<close> and
  \<open>Math.min\<close>.
\<close>

record float_ops =
  fp_add :: "real \<Rightarrow> real \<Rightarrow> real"
  fp_mul :: "real \<Rightarrow> real \<Rightarrow> real"
  fp_div :: "real \<Rightarrow> real \<Rightarrow> real"
  fp_ge :: "real \<Rightarrow> real \<Rightarrow> bool"
  fp_gt :: "real \<Rightarrow> real \<Rightarrow> bool"
  fp_min :: "real \<Rightarrow> real \<Rightarrow> real"

text \<open>
  \<open>metadata\<close> is a \<open>Record<string, any>\<close>; the engine reads three of its keys, which are
  kept here at the types they are read at.
\<close>

record metadata =
  md_pattern :: "string option"
  dormancyDays :: "real option"
  deploysPerMinute :: "real option"

text \<open>\<open>types/signal.ts\<close>: the fields \<open>type\<close> and \<open>id\<close> are \<open>stype\<close> and \<open>sid\<close>.\<close>

record signal =
  stype :: string
  hash :: string
  timestamp :: timestamp
  source :: string
  agent :: "string option"
  sid :: "string option"
  glyph :: "string option"
  confidence :: "real option"
  metadata :: "metadata option"

text \<open>\<open>signal.confidence || 0\<close>: an absent confidence reads as 0.\<close>

definition confidence_or_0 :: "signal \<Rightarrow> real" where
  "confidence_or_0 s = (case confidence s of None \<Rightarrow> 0 | Some c \<Rightarrow> c)"

text \<open>
  The filter test \<open>(now - signalTime) <= window\<close>, with \<open>signalTime\<close> the parsed timestamp;
  a comparison with NaN is false.
\<close>

definition age_within :: "int \<Rightarrow> int \<Rightarrow> signal \<Rightarrow> bool" where
  "age_within now window s =
     (case getTime (timestamp s) of None \<Rightarrow> False | Some signalTime \<Rightarrow> now - signalTime \<le> window)"

section \<open>AgentCoordinator (utils/signal.ts)\<close>

record compositeMetadata =
  ruleId :: string
  triggerSignals :: "(string \<times> string) list"

text \<open>\<open>Omit<CompositeSignal, 'timestamp'>\<close>, the argument of \<open>emitCompositeSignal\<close>.\<close>

record compositeDraft =
  d_type :: string
  d_confidence :: real
  d_contributingAgents :: "string list"
  d_pattern :: string
  d_metadata :: "compositeMetadata option"

record compositeSignal =
  c_type :: string
  c_confidence :: real
  contributingAgents :: "string list"
  pattern :: string
  c_timestamp :: timestamp
  c_metadata :: "compositeMetadata option"

text \<open>
  The optional callback \<open>action\<close> is opaque: the rule records whether it is defined, and a
  call of it is recorded in the trace of effects. It is taken to return normally and not
  to touch the coordinator.
\<close>

record correlationRule =
  cr_id :: string
  cr_name :: "string option"
  requiredSignals :: "string list"
  timeWindow :: int
  minConfidence :: real
  outputPattern :: string
  action :: bool

record coordinator =
  signalBuffer :: "signal list"
  bufferSize :: int
  correlationRules :: "correlationRule list"

datatype event =
  CompositeEmitted compositeSignal
| ActionExecuted string "signal list"

definition defaultTimeWindow :: int where
  "defaultTimeWindow = 60000"

definition cex_rapid_deploy :: correlationRule where
  "cex_rapid_deploy =
     \<lparr>cr_id = ''cex_rapid_deploy'', cr_name = None,
      requiredSignals = [''cex_funding_detected'', ''rapid_deployment''],
      timeWindow = 30000, minConfidence = 0.8,
      outputPattern = ''coordinated_launch_pattern'', action = False\<rparr>"

definition ghost_wallet_activation :: correlationRule where
  "ghost_wallet_activation =
     \<lparr>cr_id = ''ghost_wallet_activation'', cr_name = None,
      requiredSignals = [''dormant_wallet_activated'', ''high_value_transaction''],
      timeWindow = 120000, minConfidence = 0.75,
      outputPattern = ''suspicious_reactivation'', action = False\<rparr>"

text \<open>The constructor: \<open>options?.maxBufferSize || 1000\<close>, so an absent or zero size is 1000.\<close>

definition newAgentCoordinator :: "int option \<Rightarrow> coordinator" where
  "newAgentCoordinator maxBufferSize =
     \<lparr>signalBuffer = [],
      bufferSize = (case maxBufferSize of None \<Rightarrow> 1000
                    | Some n \<Rightarrow> if n = 0 then 1000 else n),
      correlationRules = [cex_rapid_deploy, ghost_wallet_activation]\<rparr>"

definition correlateSignals :: "coordinator \<Rightarrow> int \<Rightarrow> string list \<Rightarrow> int option \<Rightarrow> bool" where
  "correlateSignals c now signalTypes timeWindow' =
     (let window = (case timeWindow' of None \<Rightarrow> defaultTimeWindow
                    | Some w \<Rightarrow> if w = 0 then defaultTimeWindow else w);
          recentSignals = filter (age_within now window) (signalBuffer c);
          foundTypes = set (map stype recentSignals)
      in list_all (\<lambda>t. t \<in> foundTypes) signalTypes)"

definition emitCompositeSignal :: "int \<Rightarrow> compositeDraft \<Rightarrow> compositeSignal" where
  "emitCompositeSignal now composite =
     \<lparr>c_type = d_type composite, c_confidence = d_confidence composite,
      contributingAgents = d_contributingAgents composite, pattern = d_pattern composite,
      c_timestamp = ISO now, c_metadata = d_metadata composite\<rparr>"

definition getRelevantSignals :: "coordinator \<Rightarrow> int \<Rightarrow> string list \<Rightarrow> int \<Rightarrow> signal list" where
  "getRelevantSignals c now signalTypes timeWindow' =
     filter (\<lambda>s. age_within now timeWindow' s \<and> stype s \<in> set signalTypes) (signalBuffer c)"

definition calculateAverageConfidence :: "float_ops \<Rightarrow> signal list \<Rightarrow> real" where
  "calculateAverageConfidence fp signals =
     (if length signals = 0 then 0
      else fp_div fp (foldl (\<lambda>acc s. fp_add fp acc (confidence_or_0 s)) 0 signals)
             (real (length signals)))"

text \<open>\<open>[...new Set(xs)]\<close>: the distinct elements in order of first occurrence.\<close>

definition set_spread :: "'a list \<Rightarrow> 'a list" where
  "set_spread xs = foldl (\<lambda>acc x. if x \<in> set acc then acc else acc @ [x]) [] xs"

text \<open>
  The body of \<open>checkCorrelations\<close>: the loop over the rules, carrying \<open>results\<close> and the
  trace of effects (composites emitted to the console, actions called).
\<close>

fun checkCorrelations_loop ::
  "float_ops \<Rightarrow> coordinator \<Rightarrow> int \<Rightarrow> correlationRule list \<Rightarrow> compositeSignal list \<Rightarrow> event list
     \<Rightarrow> compositeSignal list \<times> event list" where
  "checkCorrelations_loop fp c now [] results trace = (results, trace)"
| "checkCorrelations_loop fp c now (rule # rules) results trace =
     (if correlateSignals c now (requiredSignals rule) (Some (timeWindow rule)) then
        (let relevantSignals = getRelevantSignals c now (requiredSignals rule) (timeWindow rule);
             avgConfidence = calculateAverageConfidence fp relevantSignals
         in if fp_ge fp avgConfidence (minConfidence rule) then
              (let composite = emitCompositeSignal now
                     \<lparr>d_type = outputPattern rule,
                      d_confidence = fp_min fp (fp_mul fp avgConfidence 1.1) 1.0,
                      d_contributingAgents = set_spread (map source relevantSignals),
                      d_pattern = cr_id rule,
                      d_metadata = Some \<lparr>ruleId = cr_id rule,
                        triggerSignals = map (\<lambda>s. (stype s, hash s)) relevantSignals\<rparr>\<rparr>
               in checkCorrelations_loop fp c now rules (results @ [composite])
                    (trace @ [CompositeEmitted composite] @
                       (if action rule then [ActionExecuted (cr_id rule) relevantSignals] else [])))
            else checkCorrelations_loop fp c now rules results trace)
      else checkCorrelations_loop fp c now rules results trace)"

definition checkCorrelations ::
  "float_ops \<Rightarrow> coordinator \<Rightarrow> int \<Rightarrow> compositeSignal option \<times> event list" where
  "checkCorrelations fp c now =
     (case checkCorrelations_loop fp c now (correlationRules c) [] [] of
        (results, trace) \<Rightarrow> ((if length results > 0 then Some (hd results) else None), trace))"

text \<open>
  \<open>Partial<Signal> & { agent: string; type: string; confidence: number }\<close>, the argument of
  \<open>registerSignal\<close>; \<open>None\<close> is an absent field.
\<close>

record partialSignal =
  p_type :: string
  p_agent :: string
  p_confidence :: real
  p_hash :: "string option"
  p_timestamp :: "timestamp option"
  p_source :: "string option"
  p_id :: "string option"
  p_glyph :: "string option"
  p_metadata :: "metadata option"

text \<open>
  The object literal of \<open>registerSignal\<close>: defaults first, then the spread of the argument
  over them. \<open>generatedId\<close> and \<open>generatedHash\<close> are the results of \<open>generateId()\<close> and
  \<open>generateHash()\<close>; the default glyph is U+2295 in UTF-8.
\<close>

definition fullSignal :: "int \<Rightarrow> string \<Rightarrow> string \<Rightarrow> partialSignal \<Rightarrow> signal" where
  "fullSignal now generatedId generatedHash signal =
     \<lparr>stype = p_type signal,
      hash = (case p_hash signal of None \<Rightarrow> generatedHash | Some h \<Rightarrow> h),
      timestamp = (case p_timestamp signal of None \<Rightarrow> ISO now | Some t \<Rightarrow> t),
      source = (case p_source signal of None \<Rightarrow> p_agent signal | Some s \<Rightarrow> s),
      agent = Some (p_agent signal),
      sid = Some (case p_id signal of None \<Rightarrow> generatedId | Some i \<Rightarrow> i),
      glyph = Some (case p_glyph signal of None \<Rightarrow> [CHR 0xE2, CHR 0x8A, CHR 0x95] | Some g \<Rightarrow> g),
      confidence = Some (p_confidence signal),
      metadata = p_metadata signal\<rparr>"

text \<open>Both entry points push, drop the oldest signal once when over the size, then correlate.\<close>

definition registerSignal ::
  "float_ops \<Rightarrow> int \<Rightarrow> string \<Rightarrow> string \<Rightarrow> partialSignal \<Rightarrow> coordinator
     \<Rightarrow> event list \<times> coordinator" where
  "registerSignal fp now generatedId generatedHash signal c =
     (let pushed = signalBuffer c @ [fullSignal now generatedId generatedHash signal];
          c' = c\<lparr>signalBuffer :=
                 (if int (length pushed) > bufferSize c then tl pushed else pushed)\<rparr>
      in (snd (checkCorrelations fp c' now), c'))"

definition processSignal ::
  "float_ops \<Rightarrow> int \<Rightarrow> signal \<Rightarrow> coordinator
     \<Rightarrow> (compositeSignal option \<times> event list) \<times> coordinator" where
  "processSignal fp now signal c =
     (let pushed = signalBuffer c @ [signal];
          c' = c\<lparr>signalBuffer :=
                 (if int (length pushed) > bufferSize c then tl pushed else pushed)\<rparr>
      in (checkCorrelations fp c' now, c'))"

definition addCorrelationRule :: "correlationRule \<Rightarrow> coordinator \<Rightarrow> coordinator" where
  "addCorrelationRule rule c = c\<lparr>correlationRules := correlationRules c @ [rule]\<rparr>"

text \<open>A default parameter applies to \<open>undefined\<close> only: an explicit window of 0 stays 0.\<close>

definition getActiveSignals :: "coordinator \<Rightarrow> int \<Rightarrow> int option \<Rightarrow> signal list" where
  "getActiveSignals c now timeWindow' =
     (let w = (case timeWindow' of None \<Rightarrow> defaultTimeWindow | Some w \<Rightarrow> w)
      in filter (age_within now w) (signalBuffer c))"

section \<open>SignalAnalytics (utils/analytics.ts)\<close>

datatype priority = Low | Medium | High | Critical

text \<open>The fields \<open>id\<close> and \<open>name\<close> of \<open>AlertRule\<close> are \<open>ar_id\<close> and \<open>ar_name\<close>.\<close>

record alertRule =
  ar_id :: string
  ar_name :: string
  condition :: "signal \<Rightarrow> bool"
  priority :: priority
  cooldown :: int
  enabled :: bool
  description :: string

text \<open>The object returned by \<open>triggerAlert\<close>.\<close>

record triggeredAlert =
  ta_ruleId :: string
  ta_ruleName :: string
  ta_priority :: priority
  ta_signal :: signal
  triggeredAt :: timestamp

text \<open>
  \<open>lastAlerts\<close> is a plain object used as a table from rule ids to times; the field holds
  its own properties. What a read or a write of a key does also depends on
  \<open>Object.prototype\<close>, see \<open>lastAlert_or_0\<close> and \<open>assign_number\<close> below.
\<close>

record analytics =
  signals :: "signal list"
  alertRules :: "alertRule list"
  lastAlerts :: "string \<rightharpoonup> int"
  maxSignals :: int

text \<open>
  A value in a table of counts: a number, or the string that \<open>+ 1\<close> makes of an inherited
  member of \<open>Object.prototype\<close>.
\<close>

datatype cell = Count nat | Text string

record agentMetric =
  am_count :: nat
  am_averageConfidence :: real

record patternData =
  pd_count :: nat
  pd_totalConfidence :: real

record confidenceDistribution =
  low :: nat
  medium :: nat
  high :: nat

record topPattern =
  tp_pattern :: string
  tp_count :: nat
  tp_confidence :: real

text \<open>
  \<open>SignalMetrics\<close>. A \<open>Record<string, _>\<close> is a plain object: the list of its own properties
  in the order of their creation. \<open>object_entries\<close> below gives the order in which
  \<open>Object.entries\<close> enumerates them.
\<close>

record signalMetrics =
  totalSignals :: nat
  signalsByType :: "(string \<times> cell) list"
  signalsByAgent :: "(string \<times> cell) list"
  signalsBySource :: "(string \<times> cell) list"
  averageConfidence :: real
  signalsPerHour :: real
  signalRate :: real
  confidenceDistribution :: confidenceDistribution
  agentMetrics :: "(string \<times> agentMetric) list"
  averageSignalRate :: real
  topPatterns :: "topPattern list"
  timeRange :: "timestamp \<times> timestamp"

definition defaultAlertRules :: "float_ops \<Rightarrow> alertRule list" where
  "defaultAlertRules fp =
     [\<lparr>ar_id = ''high_confidence_launch'', ar_name = ''High Confidence Launch Detection'',
       condition = (\<lambda>signal. stype signal = ''launch_detected'' \<and>
          fp_gt fp (confidence_or_0 signal) 0.9),
       priority = High, cooldown = 30000, enabled = True,
       description = ''Triggers when a launch is detected with >90% confidence''\<rparr>,
      \<lparr>ar_id = ''coordinated_pattern'', ar_name = ''Coordinated Pattern Alert'',
       condition = (\<lambda>signal. stype signal = ''coordinated_launch_pattern'' \<or>
                                stype signal = ''suspicious_reactivation''),
       priority = Critical, cooldown = 60000, enabled = True,
       description = ''Triggers on coordinated or suspicious wallet patterns''\<rparr>,
      \<lparr>ar_id = ''ghost_wallet_activity'', ar_name = ''Ghost Wallet Reactivation'',
       condition = (\<lambda>signal. stype signal = ''dormant_wallet_activated'' \<and>
          fp_gt fp (case metadata signal of None \<Rightarrow> 0
            | Some m \<Rightarrow> (case dormancyDays m of None \<Rightarrow> 0 | Some d \<Rightarrow> d)) 180),
       priority = Medium, cooldown = 120000, enabled = True,
       description = ''Triggers when wallets dormant for >180 days become active''\<rparr>,
      \<lparr>ar_id = ''rapid_deployment_burst'', ar_name = ''Rapid Deployment Burst'',
       condition = (\<lambda>signal. stype signal = ''rapid_deployment'' \<and>
          fp_gt fp (case metadata signal of None \<Rightarrow> 0
            | Some m \<Rightarrow> (case deploysPerMinute m of None \<Rightarrow> 0 | Some d \<Rightarrow> d)) 5),
       priority = Medium, cooldown = 180000, enabled = True,
       description = ''Triggers when >5 contracts deployed per minute from same wallet''\<rparr>]"

text \<open>The field initialisers and the constructor.\<close>

definition newSignalAnalytics :: "float_ops \<Rightarrow> analytics" where
  "newSignalAnalytics fp =
     \<lparr>signals = [], alertRules = defaultAlertRules fp, lastAlerts = Map.empty,
      maxSignals = 10000\<rparr>"

subsection \<open>Plain objects as tables\<close>

text \<open>
  The tables of the analytics are object literals \<open>{}\<close>, whose prototype is
  \<open>Object.prototype\<close>. A read \<open>m[k]\<close> of a key that is no own property of \<open>m\<close> yields
  \<open>undefined\<close>, unless \<open>k\<close> names a member of \<open>Object.prototype\<close>: then it yields that member,
  a function or, for \<open>__proto__\<close>, the prototype itself. These are the members of an
  unmodified \<open>Object.prototype\<close>.
\<close>

definition object_prototype_names :: "string list" where
  "object_prototype_names =
     [''constructor'', ''__defineGetter__'', ''__defineSetter__'', ''hasOwnProperty'',
      ''__lookupGetter__'', ''__lookupSetter__'', ''isPrototypeOf'', ''propertyIsEnumerable'',
      ''toString'', ''valueOf'', ''__proto__'', ''toLocaleString'']"

text \<open>
  The string an inherited member turns into under \<open>+\<close>: \<open>[object Object]\<close> for the prototype
  and the source text of a built-in function for the others, as V8 prints it.
\<close>

definition inherited_text :: "string \<Rightarrow> string" where
  "inherited_text k =
     (if k = ''__proto__'' then ''[object Object]''
      else ''function '' @ (if k = ''constructor'' then ''Object'' else k) @
           ''() { [native code] }'')"

text \<open>
  An assignment \<open>m[k] = v\<close> creates or updates the own property \<open>k\<close>. The exception is
  \<open>k = __proto__\<close> where \<open>m\<close> has no own property of that name: the assignment then calls
  the inherited setter, which ignores a value that is a number or a string.
\<close>

definition assign_number :: "string \<Rightarrow> int \<Rightarrow> (string \<rightharpoonup> int) \<Rightarrow> (string \<rightharpoonup> int)" where
  "assign_number k v m = (if k = ''__proto__'' \<and> m k = None then m else m(k \<mapsto> v))"

definition assign_cell :: "string \<Rightarrow> 'v \<Rightarrow> (string \<times> 'v) list \<Rightarrow> (string \<times> 'v) list" where
  "assign_cell k v m =
     (if k = ''__proto__'' \<and> map_of m k = None then m else AList.update k v m)"

text \<open>
  \<open>this.lastAlerts[rule.id] || 0\<close>: the own entry; 0 when there is none; and \<open>None\<close> when the
  read yields an inherited member, which is truthy and not a number.
\<close>

definition lastAlert_or_0 :: "(string \<rightharpoonup> int) \<Rightarrow> string \<Rightarrow> int option" where
  "lastAlert_or_0 m k =
     (case m k of Some t \<Rightarrow> Some t
      | None \<Rightarrow> if k \<in> set object_prototype_names then None else Some 0)"

text \<open>
  \<open>Object.entries\<close> enumerates the own properties whose key is an array index (a decimal
  numeral without leading zero, at most \<open>2^32 - 2\<close>) first, in ascending numeric order, then
  the others in the order of their creation.
\<close>

definition is_digit :: "char \<Rightarrow> bool" where
  "is_digit c = (48 \<le> (of_char c :: nat) \<and> (of_char c :: nat) \<le> 57)"

definition digits_value :: "string \<Rightarrow> nat" where
  "digits_value k = foldl (\<lambda>n c. 10 * n + (of_char c - 48)) 0 k"

definition is_array_index :: "string \<Rightarrow> bool" where
  "is_array_index k =
     (k \<noteq> [] \<and> list_all is_digit k \<and> (length k = 1 \<or> hd k \<noteq> CHR ''0'') \<and>
      digits_value k \<le> 4294967294)"

definition object_entries :: "(string \<times> 'v) list \<Rightarrow> (string \<times> 'v) list" where
  "object_entries m =
     sort_key (\<lambda>(k, v). digits_value k) (filter (\<lambda>(k, v). is_array_index k) m) @
     filter (\<lambda>(k, v). \<not> is_array_index k) m"

subsection \<open>Alerts\<close>

text \<open>\<open>triggerAlert\<close> without its console output.\<close>

definition triggerAlert :: "int \<Rightarrow> alertRule \<Rightarrow> signal \<Rightarrow> triggeredAlert" where
  "triggerAlert now rule signal =
     \<lparr>ta_ruleId = ar_id rule, ta_ruleName = ar_name rule, ta_priority = priority rule,
      ta_signal = signal, triggeredAt = ISO now\<rparr>"

text \<open>
  The \<open>forEach\<close> of \<open>checkAlerts\<close>, carrying \<open>this.lastAlerts\<close> and \<open>triggeredAlerts\<close>. A
  rule that has no entry reads as last fired at 0. Where the read yields an inherited
  member, \<open>now - lastAlert\<close> is NaN and the comparison with the cooldown is false.
\<close>

fun checkAlerts_loop ::
  "int \<Rightarrow> signal \<Rightarrow> alertRule list \<Rightarrow> (string \<rightharpoonup> int) \<Rightarrow> triggeredAlert list
     \<Rightarrow> triggeredAlert list \<times> (string \<rightharpoonup> int)" where
  "checkAlerts_loop now signal [] lastAlerts' triggeredAlerts = (triggeredAlerts, lastAlerts')"
| "checkAlerts_loop now signal (rule # rules) lastAlerts' triggeredAlerts =
     (if \<not> enabled rule then checkAlerts_loop now signal rules lastAlerts' triggeredAlerts
      else
        (let lastAlert = lastAlert_or_0 lastAlerts' (ar_id rule)
         in if (case lastAlert of None \<Rightarrow> False | Some t \<Rightarrow> now - t < cooldown rule)
            then checkAlerts_loop now signal rules lastAlerts' triggeredAlerts
            else if condition rule signal
            then checkAlerts_loop now signal rules (assign_number (ar_id rule) now lastAlerts')
                   (triggeredAlerts @ [triggerAlert now rule signal])
            else checkAlerts_loop now signal rules lastAlerts' triggeredAlerts))"

definition checkAlerts :: "int \<Rightarrow> signal \<Rightarrow> analytics \<Rightarrow> triggeredAlert list \<times> analytics" where
  "checkAlerts now signal a =
     (case checkAlerts_loop now signal (alertRules a) (lastAlerts a) [] of
        (triggeredAlerts, lastAlerts') \<Rightarrow> (triggeredAlerts, a\<lparr>lastAlerts := lastAlerts'\<rparr>))"

definition addSignal :: "int \<Rightarrow> signal \<Rightarrow> analytics \<Rightarrow> triggeredAlert list \<times> analytics" where
  "addSignal now signal a =
     (let pushed = signals a @ [signal];
          a' = a\<lparr>signals := (if int (length pushed) > maxSignals a then tl pushed else pushed)\<rparr>
      in checkAlerts now signal a')"

definition addAlertRule :: "alertRule \<Rightarrow> analytics \<Rightarrow> analytics" where
  "addAlertRule rule a = a\<lparr>alertRules := alertRules a @ [rule]\<rparr>"

text \<open>\<open>enableAlert\<close> and \<open>disableAlert\<close> set the flag of the first rule \<open>find\<close> returns.\<close>

fun set_enabled_first :: "string \<Rightarrow> bool \<Rightarrow> alertRule list \<Rightarrow> alertRule list" where
  "set_enabled_first ruleId' b [] = []"
| "set_enabled_first ruleId' b (r # rs) =
     (if ar_id r = ruleId' then r\<lparr>enabled := b\<rparr> # rs else r # set_enabled_first ruleId' b rs)"

definition enableAlert :: "string \<Rightarrow> analytics \<Rightarrow> analytics" where
  "enableAlert ruleId' a = a\<lparr>alertRules := set_enabled_first ruleId' True (alertRules a)\<rparr>"

definition disableAlert :: "string \<Rightarrow> analytics \<Rightarrow> analytics" where
  "disableAlert ruleId' a = a\<lparr>alertRules := set_enabled_first ruleId' False (alertRules a)\<rparr>"

definition removeAlertRule :: "string \<Rightarrow> analytics \<Rightarrow> analytics" where
  "removeAlertRule ruleId' a =
     a\<lparr>alertRules := filter (\<lambda>rule. ar_id rule \<noteq> ruleId') (alertRules a),
       lastAlerts := (lastAlerts a)(ruleId' := None)\<rparr>"

text \<open>\<open>Array.prototype.slice(start)\<close> for an integral \<open>start\<close>; note \<open>slice(-0)\<close> is \<open>slice(0)\<close>.\<close>

definition slice_from :: "int \<Rightarrow> 'a list \<Rightarrow> 'a list" where
  "slice_from start xs =
     (if start < 0 then drop (nat (max (int (length xs) + start) 0)) xs else drop (nat start) xs)"

definition setMaxHistorySize :: "int \<Rightarrow> analytics \<Rightarrow> analytics" where
  "setMaxHistorySize size' a =
     (let a' = a\<lparr>maxSignals := size'\<rparr>
      in if int (length (signals a')) > size'
         then a'\<lparr>signals := slice_from (- size') (signals a')\<rparr> else a')"

definition reset :: "analytics \<Rightarrow> analytics" where
  "reset a = a\<lparr>signals := [], lastAlerts := Map.empty\<rparr>"

subsection \<open>getMetrics\<close>

text \<open>The locals that the \<open>forEach\<close> of \<open>getMetrics\<close> updates.\<close>

record tally =
  t_signalsByType :: "(string \<times> cell) list"
  t_signalsByAgent :: "(string \<times> cell) list"
  t_signalsBySource :: "(string \<times> cell) list"
  t_agentMetrics :: "(string \<times> agentMetric) list"
  t_patterns :: "(string \<times> patternData) list"
  t_confidenceDistribution :: confidenceDistribution
  t_totalConfidence :: real
  t_confidenceCount :: nat

definition tally0 :: tally where
  "tally0 =
     \<lparr>t_signalsByType = [], t_signalsByAgent = [], t_signalsBySource = [], t_agentMetrics = [],
      t_patterns = [], t_confidenceDistribution = \<lparr>low = 0, medium = 0, high = 0\<rparr>,
      t_totalConfidence = 0, t_confidenceCount = 0\<rparr>"

text \<open>
  \<open>m[k] = (m[k] || 0) + 1\<close>. A number is incremented, and a missing entry counts from 0.
  A non-empty string, or an inherited member, is truthy and \<open>+ 1\<close> appends \<open>1\<close> to its text.
\<close>

definition bump :: "string \<Rightarrow> (string \<times> cell) list \<Rightarrow> (string \<times> cell) list" where
  "bump k m =
     assign_cell k
       (case map_of m k of
          Some (Count n) \<Rightarrow> Count (n + 1)
        | Some (Text s) \<Rightarrow> if s = [] then Count 1 else Text (s @ ''1'')
        | None \<Rightarrow> if k \<in> set object_prototype_names then Text (inherited_text k @ ''1'')
                   else Count 1)
       m"

text \<open>
  \<open>if (!m[k]) { m[k] = fresh }\<close> followed by updates of the fields of \<open>m[k]\<close>, which turn it
  into \<open>change (m[k])\<close>. Where the read yields an inherited member, which is truthy, no
  entry is created and the updates land on that member, outside the table: they give it
  fields \<open>count\<close>, \<open>averageConfidence\<close> or \<open>totalConfidence\<close> of value NaN, which read as
  falsy wherever the engine looks a key up, as a missing entry does.
\<close>

definition update_entry :: "string \<Rightarrow> 'v \<Rightarrow> ('v \<Rightarrow> 'v) \<Rightarrow> (string \<times> 'v) list \<Rightarrow> (string \<times> 'v) list" where
  "update_entry k fresh change m =
     (case map_of m k of
        Some v \<Rightarrow> AList.update k (change v) m
      | None \<Rightarrow> if k \<in> set object_prototype_names then m
                 else AList.update k (change fresh) m)"

text \<open>\<open>signal.agent || signal.source\<close>: an absent or empty agent falls back to the source.\<close>

definition agent_or_source :: "signal \<Rightarrow> string" where
  "agent_or_source signal =
     (case agent signal of None \<Rightarrow> source signal
      | Some a \<Rightarrow> if a = [] then source signal else a)"

text \<open>\<open>signal.metadata?.pattern || signal.type\<close>.\<close>

definition pattern_or_type :: "signal \<Rightarrow> string" where
  "pattern_or_type signal =
     (case metadata signal of None \<Rightarrow> stype signal
      | Some m \<Rightarrow> (case md_pattern m of None \<Rightarrow> stype signal
                   | Some p \<Rightarrow> if p = [] then stype signal else p))"

definition bucket :: "float_ops \<Rightarrow> real \<Rightarrow> confidenceDistribution \<Rightarrow> confidenceDistribution" where
  "bucket fp c d =
     (if fp_ge fp c 0.8 then d\<lparr>high := high d + 1\<rparr>
      else if fp_ge fp c 0.7 then d\<lparr>medium := medium d + 1\<rparr>
      else d\<lparr>low := low d + 1\<rparr>)"

text \<open>One iteration of the \<open>forEach\<close>, statement by statement.\<close>

definition tally_step :: "float_ops \<Rightarrow> tally \<Rightarrow> signal \<Rightarrow> tally" where
  "tally_step fp t signal =
     (let byType = bump (stype signal) (t_signalsByType t);
          agent' = agent_or_source signal;
          byAgent = bump agent' (t_signalsByAgent t);
          bySource = bump (source signal) (t_signalsBySource t);
          agentMetrics' = update_entry agent' \<lparr>am_count = 0, am_averageConfidence = 0\<rparr>
            (\<lambda>am0.
               let am1 = am0\<lparr>am_count := am_count am0 + 1\<rparr>
               in (case confidence signal of None \<Rightarrow> am1
                   | Some c \<Rightarrow>
                       (let currentTotal =
                              fp_mul fp (am_averageConfidence am1) (real (am_count am1) - 1)
                        in am1\<lparr>am_averageConfidence :=
                               fp_div fp (fp_add fp currentTotal c) (real (am_count am1))\<rparr>)))
            (t_agentMetrics t);
          pattern' = pattern_or_type signal;
          patterns' = update_entry pattern' \<lparr>pd_count = 0, pd_totalConfidence = 0\<rparr>
            (\<lambda>pd0.
               let pd1 = pd0\<lparr>pd_count := pd_count pd0 + 1\<rparr>
               in (case confidence signal of None \<Rightarrow> pd1
                   | Some c \<Rightarrow>
                       pd1\<lparr>pd_totalConfidence := fp_add fp (pd_totalConfidence pd1) c\<rparr>))
            (t_patterns t)
      in \<lparr>t_signalsByType = byType, t_signalsByAgent = byAgent, t_signalsBySource = bySource,
          t_agentMetrics = agentMetrics',
          t_patterns = patterns',
          t_confidenceDistribution =
            (case confidence signal of None \<Rightarrow> t_confidenceDistribution t
             | Some c \<Rightarrow> bucket fp c (t_confidenceDistribution t)),
          t_totalConfidence =
            (case confidence signal of None \<Rightarrow> t_totalConfidence t
             | Some c \<Rightarrow> fp_add fp (t_totalConfidence t) c),
          t_confidenceCount =
            (case confidence signal of None \<Rightarrow> t_confidenceCount t
             | Some c \<Rightarrow> t_confidenceCount t + 1)\<rparr>)"

text \<open>\<open>x?.timestamp || new Date().toISOString()\<close>: only the empty string is falsy.\<close>

definition timestamp_or_now :: "int \<Rightarrow> signal option \<Rightarrow> timestamp" where
  "timestamp_or_now now x =
     (case x of None \<Rightarrow> ISO now
      | Some s \<Rightarrow> if timestamp s = Unparsed [] then ISO now else timestamp s)"

text \<open>\<open>timeWindow || 24 * 60 * 60 * 1000\<close>.\<close>

definition windowMs_of :: "int option \<Rightarrow> int" where
  "windowMs_of timeWindow' =
     (case timeWindow' of None \<Rightarrow> 24 * 60 * 60 * 1000
      | Some w \<Rightarrow> if w = 0 then 24 * 60 * 60 * 1000 else w)"

text \<open>
  The sums and means of confidences go through \<open>fp\<close>. The three rates are quotients of a
  count and the window length; they are written with exact division and are used below
  only where the count is 0, where the quotient of doubles is exactly 0 as well.
\<close>

definition getMetrics :: "float_ops \<Rightarrow> int \<Rightarrow> int option \<Rightarrow> analytics \<Rightarrow> signalMetrics" where
  "getMetrics fp now timeWindow' a =
     (let windowMs = windowMs_of timeWindow';
          relevantSignals = filter (age_within now windowMs) (signals a);
          t = foldl (tally_step fp) tally0 relevantSignals;
          topPatterns' =
            take 10 (sort_key (\<lambda>p. - int (tp_count p))
              (map (\<lambda>(pattern', data).
                      \<lparr>tp_pattern = pattern', tp_count = pd_count data,
                       tp_confidence = (if pd_count data > 0
                          then fp_div fp (pd_totalConfidence data) (real (pd_count data))
                          else 0)\<rparr>)
                   (object_entries (t_patterns t))));
          earliestSignal = timestamp_or_now now
            (case relevantSignals of [] \<Rightarrow> None | s # _ \<Rightarrow> Some s);
          latestSignal = timestamp_or_now now
            (if relevantSignals = [] then None else Some (last relevantSignals));
          hoursInWindow = real_of_int windowMs / (1000 * 60 * 60);
          signalsPerHour' = real (length relevantSignals) / hoursInWindow;
          signalRate' = real (length relevantSignals) / (real_of_int windowMs / 1000);
          averageSignalRate' = signalRate' * 60
      in \<lparr>totalSignals = length relevantSignals,
          signalsByType = t_signalsByType t,
          signalsByAgent = t_signalsByAgent t,
          signalsBySource = t_signalsBySource t,
          averageConfidence = (if t_confidenceCount t > 0
             then fp_div fp (t_totalConfidence t) (real (t_confidenceCount t)) else 0),
          signalsPerHour = signalsPerHour',
          signalRate = signalRate',
          confidenceDistribution = t_confidenceDistribution t,
          agentMetrics = t_agentMetrics t,
          averageSignalRate = averageSignalRate',
          topPatterns = topPatterns',
          timeRange = (earliestSignal, latestSignal)\<rparr>)"

section \<open>Derived notions and example data\<close>

subsection \<open>Runs of calls\<close>

text \<open>A run of \<open>registerSignal\<close> calls, each with its clock reading and generated id and hash.\<close>

fun registerAll ::
  "float_ops \<Rightarrow> (int \<times> string \<times> string \<times> partialSignal) list \<Rightarrow> coordinator \<Rightarrow> coordinator" where
  "registerAll fp [] c = c"
| "registerAll fp ((now, generatedId, generatedHash, signal) # rest) c =
     registerAll fp rest (snd (registerSignal fp now generatedId generatedHash signal c))"

text \<open>The signal each call of such a run pushes.\<close>

definition pushed_signal :: "int \<times> string \<times> string \<times> partialSignal \<Rightarrow> signal" where
  "pushed_signal i = (case i of (now, generatedId, generatedHash, signal) \<Rightarrow>
     fullSignal now generatedId generatedHash signal)"

text \<open>A run of \<open>addSignal\<close> calls, each with its clock reading.\<close>

fun addAll :: "(int \<times> signal) list \<Rightarrow> analytics \<Rightarrow> analytics" where
  "addAll [] a = a"
| "addAll ((now, signal) # rest) a = addAll rest (snd (addSignal now signal a))"

subsection \<open>Derived notions\<close>

text \<open>What one rule contributes to \<open>results\<close> and to the trace: the loop run on that rule alone.\<close>

definition ruleResults ::
  "float_ops \<Rightarrow> coordinator \<Rightarrow> int \<Rightarrow> correlationRule \<Rightarrow> compositeSignal list" where
  "ruleResults fp c now rule = fst (checkCorrelations_loop fp c now [rule] [] [])"

definition ruleTrace :: "float_ops \<Rightarrow> coordinator \<Rightarrow> int \<Rightarrow> correlationRule \<Rightarrow> event list" where
  "ruleTrace fp c now rule = snd (checkCorrelations_loop fp c now [rule] [] [])"

text \<open>
  The mean of the confidences of a list of signals as the runtime computes it: the sum
  from the left, starting at 0, divided by the length.
\<close>

definition mean_confidence :: "float_ops \<Rightarrow> signal list \<Rightarrow> real" where
  "mean_confidence fp xs =
     fp_div fp (foldl (fp_add fp) 0 (map confidence_or_0 xs)) (real (length xs))"

text \<open>The timestamp parses and is not earlier than \<open>lo\<close>.\<close>

definition stamped_from :: "int \<Rightarrow> signal \<Rightarrow> bool" where
  "stamped_from lo s = (case timestamp s of ISO t \<Rightarrow> lo \<le> t | Unparsed x \<Rightarrow> False)"

text \<open>The cooldown test of \<open>checkAlerts\<close> for a rule, given the entries of \<open>lastAlerts\<close>.\<close>

definition in_cooldown :: "int \<Rightarrow> (string \<rightharpoonup> int) \<Rightarrow> alertRule \<Rightarrow> bool" where
  "in_cooldown now la rule =
     (case lastAlert_or_0 la (ar_id rule) of None \<Rightarrow> False | Some t \<Rightarrow> now - t < cooldown rule)"

text \<open>An enabled rule out of its cooldown whose predicate holds of the signal.\<close>

definition alert_fires :: "int \<Rightarrow> signal \<Rightarrow> (string \<rightharpoonup> int) \<Rightarrow> alertRule \<Rightarrow> bool" where
  "alert_fires now signal la rule =
     (enabled rule \<and> \<not> in_cooldown now la rule \<and> condition rule signal)"

text \<open>The signals of a snapshot's window, and those among them that carry a confidence.\<close>

definition in_window :: "int \<Rightarrow> int option \<Rightarrow> analytics \<Rightarrow> signal list" where
  "in_window now timeWindow' a = filter (age_within now (windowMs_of timeWindow')) (signals a)"



text \<open>The snapshot of an empty window taken at \<open>now\<close>.\<close>

definition empty_metrics :: "int \<Rightarrow> int option \<Rightarrow> signalMetrics" where
  "empty_metrics now timeWindow' =
     \<lparr>totalSignals = 0, signalsByType = [], signalsByAgent = [], signalsBySource = [],
      averageConfidence = 0, signalsPerHour = 0, signalRate = 0,
      confidenceDistribution = \<lparr>low = 0, medium = 0, high = 0\<rparr>, agentMetrics = [],
      averageSignalRate = 0, topPatterns = [], timeRange = (ISO now, ISO now)\<rparr>"

subsection \<open>Example data\<close>

text \<open>
  Arithmetic without rounding, for the examples. Their numbers are chosen so that rounding
  does not show: each result stands for the double that the runtime computes from the
  same operands (\<open>1 + 0\<close>, \<open>1 / 2\<close>, \<open>0.5 * 1.1 = 0.55\<close>, \<open>(0 + 0.95) / 1\<close>).
\<close>

definition exact_arith :: float_ops where
  "exact_arith =
     \<lparr>fp_add = (\<lambda>x y. x + y), fp_mul = (\<lambda>x y. x * y), fp_div = (\<lambda>x y. x / y),
      fp_ge = (\<lambda>x y. x \<ge> y), fp_gt = (\<lambda>x y. x > y), fp_min = min\<rparr>"

text \<open>Two signals of the kinds the built-in funding rule requires, one second apart.\<close>

definition sigA :: signal where
  "sigA = \<lparr>stype = ''cex_funding_detected'', hash = ''h1'', timestamp = ISO 1000,
     source = ''A'', agent = None, sid = None, glyph = None, confidence = Some 1,
     metadata = None\<rparr>"

definition sigB :: signal where
  "sigB = \<lparr>stype = ''rapid_deployment'', hash = ''h2'', timestamp = ISO 2000,
     source = ''B'', agent = None, sid = None, glyph = None, confidence = Some 1,
     metadata = None\<rparr>"

text \<open>A deployment signal that carries no confidence.\<close>

definition sigB_unscored :: signal where
  "sigB_unscored = \<lparr>stype = ''rapid_deployment'', hash = ''h6'', timestamp = ISO 2000,
     source = ''B'', agent = None, sid = None, glyph = None, confidence = None,
     metadata = None\<rparr>"

text \<open>A signal stamped later than the clock readings of the examples.\<close>

definition sigFuture :: signal where
  "sigFuture = \<lparr>stype = ''cex_funding_detected'', hash = ''h3'', timestamp = ISO 9000,
     source = ''A'', agent = None, sid = None, glyph = None, confidence = Some 1,
     metadata = None\<rparr>"

text \<open>A further rule on the kinds of the built-in funding rule, with an action.\<close>

definition second_rule :: correlationRule where
  "second_rule =
     \<lparr>cr_id = ''second_rule'', cr_name = None,
      requiredSignals = [''cex_funding_detected'', ''rapid_deployment''],
      timeWindow = 30000, minConfidence = 0.5,
      outputPattern = ''second_pattern'', action = True\<rparr>"

definition two_rules :: coordinator where
  "two_rules = addCorrelationRule second_rule ((newAgentCoordinator None)\<lparr>signalBuffer := [sigA]\<rparr>)"

text \<open>Registrations of one kind only.\<close>

definition onlyA :: partialSignal where
  "onlyA = \<lparr>p_type = ''cex_funding_detected'', p_agent = ''A'', p_confidence = 1,
     p_hash = None, p_timestamp = None, p_source = None, p_id = None, p_glyph = None,
     p_metadata = None\<rparr>"

definition three_registrations :: "(int \<times> string \<times> string \<times> partialSignal) list" where
  "three_registrations =
     [(1000, ''id1'', ''hash1'', onlyA), (2000, ''id2'', ''hash2'', onlyA),
      (3000, ''id3'', ''hash3'', onlyA)]"

text \<open>A registration with a confidence above 1.\<close>

definition overconfident :: partialSignal where
  "overconfident = \<lparr>p_type = ''TEST_SIGNAL'', p_agent = ''test'', p_confidence = 1.5,
     p_hash = None, p_timestamp = None, p_source = None, p_id = None, p_glyph = None,
     p_metadata = None\<rparr>"

text \<open>A launch signal of confidence 0.95 and the built-in rule it satisfies.\<close>

definition launch :: signal where
  "launch = \<lparr>stype = ''launch_detected'', hash = ''h4'', timestamp = ISO 100000,
     source = ''observer'', agent = None, sid = None, glyph = None, confidence = Some 0.95,
     metadata = None\<rparr>"

definition launch_rule :: alertRule where
  "launch_rule = hd (defaultAlertRules exact_arith)"

text \<open>A signal without a confidence, and a history that holds it alone.\<close>

definition unscored_signal :: signal where
  "unscored_signal = \<lparr>stype = ''NO_CONFIDENCE'', hash = ''h5'', timestamp = ISO 100000,
     source = ''test'', agent = None, sid = None, glyph = None, confidence = None,
     metadata = None\<rparr>"

definition one_unscored :: analytics where
  "one_unscored = snd (addSignal 100000 unscored_signal (newSignalAnalytics exact_arith))"


section \<open>Properties of the coordinator\<close>

lemma exact_arith_ops:
  "fp_add exact_arith x y = x + y" "fp_mul exact_arith x y = x * y"
  "fp_div exact_arith x y = x / y" "fp_ge exact_arith x y = (y \<le> x)"
  "fp_gt exact_arith x y = (y < x)" "fp_min exact_arith x y = min x y"
  by (simp_all add: exact_arith_def)

lemma checkCorrelations_loop_decompose:
  "checkCorrelations_loop fp c now rules results trace =
     (results @ concat (map (ruleResults fp c now) rules),
      trace @ concat (map (ruleTrace fp c now) rules))"
  by (induction rules arbitrary: results trace)
     (simp_all add: ruleResults_def ruleTrace_def Let_def)

lemma calculateAverageConfidence_mean:
  "calculateAverageConfidence fp xs = (if xs = [] then 0 else mean_confidence fp xs)"
  by (simp add: calculateAverageConfidence_def mean_confidence_def foldl_map)

lemma correlateSignals_iff:
  "correlateSignals c now types (Some w) =
     (\<forall>t\<in>set types. \<exists>s\<in>set (signalBuffer c).
         age_within now (if w = 0 then defaultTimeWindow else w) s \<and> stype s = t)"
  by (auto simp: correlateSignals_def Let_def list_all_iff)

lemma age_within_mono: "age_within now w s \<Longrightarrow> w \<le> w' \<Longrightarrow> age_within now w' s"
  by (auto simp: age_within_def split: option.splits)

lemma covered_correlateSignals:
  assumes "\<forall>t\<in>set types. \<exists>s\<in>set (signalBuffer c). age_within now w s \<and> stype s = t"
  shows "correlateSignals c now types (Some w)"
  using assms unfolding correlateSignals_iff
  by (fastforce simp: defaultTimeWindow_def age_within_def split: option.splits)

lemma ruleResults_unfold:
  "ruleResults fp c now rule =
     (if correlateSignals c now (requiredSignals rule) (Some (timeWindow rule)) \<and>
         fp_ge fp (calculateAverageConfidence fp
            (getRelevantSignals c now (requiredSignals rule) (timeWindow rule)))
           (minConfidence rule)
      then [emitCompositeSignal now
              \<lparr>d_type = outputPattern rule,
               d_confidence = fp_min fp (fp_mul fp (calculateAverageConfidence fp
                 (getRelevantSignals c now (requiredSignals rule) (timeWindow rule))) 1.1) 1.0,
               d_contributingAgents = set_spread (map source
                 (getRelevantSignals c now (requiredSignals rule) (timeWindow rule))),
               d_pattern = cr_id rule,
               d_metadata = Some \<lparr>ruleId = cr_id rule,
                 triggerSignals = map (\<lambda>s. (stype s, hash s))
                   (getRelevantSignals c now (requiredSignals rule) (timeWindow rule))\<rparr>\<rparr>]
      else [])"
  by (simp add: ruleResults_def Let_def)

lemma ruleTrace_unfold:
  "ruleTrace fp c now rule =
     (if ruleResults fp c now rule = [] then []
      else CompositeEmitted (hd (ruleResults fp c now rule)) #
           (if action rule
            then [ActionExecuted (cr_id rule)
                    (getRelevantSignals c now (requiredSignals rule) (timeWindow rule))]
            else []))"
  by (simp add: ruleResults_def ruleTrace_def Let_def)

lemma processSignal_rules: "correlationRules (snd (processSignal fp now sig c0)) = correlationRules c0"
  by (simp add: processSignal_def Let_def)

lemma processSignal_trace:
  "snd (fst (processSignal fp now sig c0)) =
     concat (map (ruleTrace fp (snd (processSignal fp now sig c0)) now) (correlationRules c0))"
  by (simp add: processSignal_def Let_def checkCorrelations_def
      checkCorrelations_loop_decompose split: prod.splits)

text \<open>
  Claim C1. Let a signal be processed and let \<open>rule\<close> be a registered rule all of whose
  required types occur among the buffered signals inside the rule's window. Let \<open>avg\<close> be the
  mean confidence of the buffered in-window signals of required types, an absent
  confidence counting as 0, as the runtime computes it. If \<open>avg >= minConfidence\<close> holds, the
  rule contributes exactly one composite to the results of the pass, its confidence is
  \<open>Math.min(avg * 1.1, 1.0)\<close> and it is emitted; if it does not hold, the rule contributes
  nothing. This is so whatever the arithmetic of the runtime is.
\<close>

theorem composite_confidence:
  assumes rules: "correlationRules c0 = pre @ rule # post"
    and c: "c = snd (processSignal fp now sig c0)"
    and collected: "collected =
          filter (\<lambda>s. age_within now (timeWindow rule) s \<and> stype s \<in> set (requiredSignals rule))
            (signalBuffer c)"
    and avg: "avg = (if collected = [] then 0 else mean_confidence fp collected)"
    and covered: "\<forall>t\<in>set (requiredSignals rule).
          \<exists>s\<in>set (signalBuffer c). age_within now (timeWindow rule) s \<and> stype s = t"
  shows "\<exists>X. fst (checkCorrelations_loop fp c now (correlationRules c) [] []) =
            fst (checkCorrelations_loop fp c now pre [] []) @ X @
            fst (checkCorrelations_loop fp c now post [] []) \<and>
          (fp_ge fp avg (minConfidence rule) \<longrightarrow>
             (\<exists>composite. X = [composite] \<and>
                c_confidence composite = fp_min fp (fp_mul fp avg 1.1) 1 \<and>
                c_type composite = outputPattern rule \<and>
                CompositeEmitted composite \<in> set (snd (fst (processSignal fp now sig c0))))) \<and>
          (\<not> fp_ge fp avg (minConfidence rule) \<longrightarrow> X = [])"
proof -
  have rel: "getRelevantSignals c now (requiredSignals rule) (timeWindow rule) = collected"
    by (simp add: getRelevantSignals_def collected)
  have avg': "calculateAverageConfidence fp collected = avg"
    by (simp add: calculateAverageConfidence_mean avg)
  have cs: "correlateSignals c now (requiredSignals rule) (Some (timeWindow rule))"
    by (rule covered_correlateSignals) (rule covered)
  have split: "fst (checkCorrelations_loop fp c now (correlationRules c) [] []) =
      fst (checkCorrelations_loop fp c now pre [] []) @ ruleResults fp c now rule @
      fst (checkCorrelations_loop fp c now post [] [])"
    by (simp add: c processSignal_rules rules checkCorrelations_loop_decompose)
  show ?thesis
  proof (cases "fp_ge fp avg (minConfidence rule)")
    case True
    then obtain composite where X: "ruleResults fp c now rule = [composite]"
      and conf: "c_confidence composite = fp_min fp (fp_mul fp avg 1.1) 1"
      and ty: "c_type composite = outputPattern rule"
      by (simp add: ruleResults_unfold cs rel avg' emitCompositeSignal_def)
    have "ruleTrace fp c now rule \<noteq> [] \<and> hd (ruleTrace fp c now rule) = CompositeEmitted composite"
      by (simp add: ruleTrace_unfold X)
    then have "CompositeEmitted composite \<in> set (ruleTrace fp c now rule)"
      by (cases "ruleTrace fp c now rule") auto
    then have "CompositeEmitted composite \<in> set (snd (fst (processSignal fp now sig c0)))"
      unfolding processSignal_trace by (auto simp: rules c)
    with True X conf ty split show ?thesis by auto
  next
    case False
    then have "ruleResults fp c now rule = []"
      by (simp add: ruleResults_unfold rel avg')
    with False split show ?thesis by auto
  qed
qed

lemma unscored_buffer:
  "signalBuffer (snd (processSignal fp 3000 sigB_unscored two_rules)) = [sigA, sigB_unscored]"
  by (simp add: processSignal_def two_rules_def addCorrelationRule_def newAgentCoordinator_def
      Let_def)

lemma unscored_rules:
  "correlationRules two_rules = [cex_rapid_deploy, ghost_wallet_activation] @ second_rule # []"
  "correlationRules two_rules = [] @ cex_rapid_deploy # [ghost_wallet_activation, second_rule]"
  by (simp_all add: two_rules_def addCorrelationRule_def newAgentCoordinator_def)

lemma unscored_collected:
  "filter (\<lambda>s. age_within 3000 30000 s \<and>
       stype s \<in> set [''cex_funding_detected'', ''rapid_deployment''])
     [sigA, sigB_unscored] = [sigA, sigB_unscored]"
  "\<forall>t\<in>set [''cex_funding_detected'', ''rapid_deployment''].
      \<exists>s\<in>set [sigA, sigB_unscored]. age_within 3000 30000 s \<and> stype s = t"
  by (simp_all add: sigA_def sigB_unscored_def age_within_def)

lemma unscored_mean: "mean_confidence exact_arith [sigA, sigB_unscored] = 1 / 2"
  by (simp add: mean_confidence_def exact_arith_ops sigA_def sigB_unscored_def
      confidence_or_0_def)

text \<open>
  An instance. The buffer holds a funding signal of confidence 1 and a deployment signal
  without confidence arrives: the mean is \<open>(0 + 1 + 0) / 2 = 0.5\<close>. The rule with minimum 0.5
  emits a composite of confidence \<open>0.5 * 1.1 = 0.55\<close>; the built-in rule with minimum 0.8
  contributes nothing.
\<close>

theorem composite_confidence_witness:
  "(\<exists>composite. c_confidence composite = 55 / 100 \<and>
      CompositeEmitted composite \<in>
        set (snd (fst (processSignal exact_arith 3000 sigB_unscored two_rules)))) \<and>
   fst (checkCorrelations_loop exact_arith
          (snd (processSignal exact_arith 3000 sigB_unscored two_rules)) 3000
          (correlationRules (snd (processSignal exact_arith 3000 sigB_unscored two_rules))) [] []) =
   fst (checkCorrelations_loop exact_arith
          (snd (processSignal exact_arith 3000 sigB_unscored two_rules)) 3000
          [ghost_wallet_activation, second_rule] [] [])"
proof -
  let ?c = "snd (processSignal exact_arith 3000 sigB_unscored two_rules)"
  have second: "requiredSignals second_rule = [''cex_funding_detected'', ''rapid_deployment'']"
    "timeWindow second_rule = 30000" "minConfidence second_rule = 1 / 2"
    by (simp_all add: second_rule_def)
  have builtin: "requiredSignals cex_rapid_deploy = [''cex_funding_detected'', ''rapid_deployment'']"
    "timeWindow cex_rapid_deploy = 30000" "minConfidence cex_rapid_deploy = 8 / 10"
    by (simp_all add: cex_rapid_deploy_def)
  have ops: "fp_ge exact_arith (1 / 2) (1 / 2)" "\<not> fp_ge exact_arith (1 / 2) (8 / 10)"
    "fp_min exact_arith (fp_mul exact_arith (1 / 2) 1.1) 1 = 55 / 100"
    by (simp_all add: exact_arith_ops)
  have avg: "(if [sigA, sigB_unscored] = [] then 0
      else mean_confidence exact_arith [sigA, sigB_unscored]) = 1 / 2"
    by (simp add: unscored_mean)
  from composite_confidence [where fp = exact_arith and ?c0.0 = two_rules and now = 3000
      and sig = sigB_unscored and rule = second_rule
      and pre = "[cex_rapid_deploy, ghost_wallet_activation]" and post = "[]"
      and collected = "[sigA, sigB_unscored]" and avg = "1 / 2", OF unscored_rules(1) refl]
  have "\<exists>composite. c_confidence composite = fp_min exact_arith (fp_mul exact_arith (1 / 2) 1.1) 1 \<and>
      CompositeEmitted composite \<in>
        set (snd (fst (processSignal exact_arith 3000 sigB_unscored two_rules)))"
    unfolding unscored_buffer second using unscored_collected avg ops(1) by auto
  moreover
  from composite_confidence [where fp = exact_arith and ?c0.0 = two_rules and now = 3000
      and sig = sigB_unscored and rule = cex_rapid_deploy
      and pre = "[]" and post = "[ghost_wallet_activation, second_rule]"
      and collected = "[sigA, sigB_unscored]" and avg = "1 / 2", OF unscored_rules(2) refl]
  have "fst (checkCorrelations_loop exact_arith ?c 3000 (correlationRules ?c) [] []) =
      fst (checkCorrelations_loop exact_arith ?c 3000 [ghost_wallet_activation, second_rule] [] [])"
    unfolding unscored_buffer builtin using unscored_collected avg ops(2) by auto
  ultimately show ?thesis
    unfolding ops(3) by blast
qed

lemma set_concat_map_mono: "r \<in> set rs \<Longrightarrow> x \<in> set (f r) \<Longrightarrow> x \<in> set (concat (map f rs))"
  by auto

text \<open>
  Claim C6. A rule matches when it yields a composite. If no rule matches, the call returns
  no composite. Otherwise the call returns the composite of the first matching rule in
  registration order, alone; every later matching rule is still evaluated: its composite is
  built and emitted and its action, if any, is called, as the trace shows.
\<close>

theorem first_match_returned:
  assumes c: "c = snd (processSignal fp now sig c0)"
    and out: "out = fst (processSignal fp now sig c0)"
  shows "((\<forall>r\<in>set (correlationRules c0). ruleResults fp c now r = []) \<longrightarrow> fst out = None) \<and>
    (correlationRules c0 = pre @ rule # post \<and> (\<forall>r\<in>set pre. ruleResults fp c now r = []) \<and>
       ruleResults fp c now rule = [composite] \<longrightarrow>
       fst out = Some composite \<and>
       (\<forall>r\<in>set post. \<forall>composite'. ruleResults fp c now r = [composite'] \<longrightarrow>
          CompositeEmitted composite' \<in> set (snd out) \<and>
          (action r \<longrightarrow>
             ActionExecuted (cr_id r) (getRelevantSignals c now (requiredSignals r) (timeWindow r))
               \<in> set (snd out))))"
proof -
  have res: "fst out =
      (if concat (map (ruleResults fp c now) (correlationRules c0)) = [] then None
       else Some (hd (concat (map (ruleResults fp c now) (correlationRules c0)))))"
    by (simp add: out c processSignal_def Let_def checkCorrelations_def
        checkCorrelations_loop_decompose split: prod.splits)
  have tr: "snd out = concat (map (ruleTrace fp c now) (correlationRules c0))"
    by (simp add: out c processSignal_trace)
  have none: "(\<forall>r\<in>set (correlationRules c0). ruleResults fp c now r = []) \<longrightarrow> fst out = None"
    by (simp add: res)
  have some: "fst out = Some composite \<and>
       (\<forall>r\<in>set post. \<forall>composite'. ruleResults fp c now r = [composite'] \<longrightarrow>
          CompositeEmitted composite' \<in> set (snd out) \<and>
          (action r \<longrightarrow>
             ActionExecuted (cr_id r) (getRelevantSignals c now (requiredSignals r) (timeWindow r))
               \<in> set (snd out)))"
    if rules: "correlationRules c0 = pre @ rule # post"
      and pre: "\<forall>r\<in>set pre. ruleResults fp c now r = []"
      and rule: "ruleResults fp c now rule = [composite]"
  proof -
    have e0: "concat (map (ruleResults fp c now) pre) = []"
      using pre by simp
    have "concat (map (ruleResults fp c now) (correlationRules c0)) =
        composite # concat (map (ruleResults fp c now) post)"
      unfolding rules map_append concat_append e0 by (simp add: rule)
    then have ret: "fst out = Some composite"
      unfolding res by simp
    have later: "CompositeEmitted composite' \<in> set (snd out) \<and>
          (action r \<longrightarrow>
             ActionExecuted (cr_id r) (getRelevantSignals c now (requiredSignals r) (timeWindow r))
               \<in> set (snd out))"
      if r: "r \<in> set post" and rr: "ruleResults fp c now r = [composite']" for r composite'
    proof -
      have mem: "r \<in> set (correlationRules c0)"
        using r by (simp add: rules)
      have e: "CompositeEmitted composite' \<in> set (ruleTrace fp c now r)"
        by (simp add: ruleTrace_unfold rr)
      have a: "ActionExecuted (cr_id r) (getRelevantSignals c now (requiredSignals r) (timeWindow r))
          \<in> set (ruleTrace fp c now r)" if "action r"
        using that by (simp add: ruleTrace_unfold rr)
      show ?thesis
        unfolding tr
        using set_concat_map_mono [of r _ _ "ruleTrace fp c now", OF mem e]
          set_concat_map_mono [of r _ _ "ruleTrace fp c now", OF mem a]
        by blast
    qed
    from ret later show ?thesis by blast
  qed
  from none some show ?thesis by blast
qed

lemma two_rules_buffer: "signalBuffer (snd (processSignal fp 3000 sigB two_rules)) = [sigA, sigB]"
  by (simp add: processSignal_def two_rules_def addCorrelationRule_def newAgentCoordinator_def Let_def)

lemma two_rules_rules:
  "correlationRules two_rules = [] @ cex_rapid_deploy # [ghost_wallet_activation, second_rule]"
  by (simp add: two_rules_def addCorrelationRule_def newAgentCoordinator_def)

lemma example_relevant:
  "signalBuffer c = [sigA, sigB] \<Longrightarrow>
   getRelevantSignals c 3000 [''cex_funding_detected'', ''rapid_deployment''] 30000 = [sigA, sigB]"
  by (simp add: getRelevantSignals_def sigA_def sigB_def age_within_def)

lemma example_correlate:
  "signalBuffer c = [sigA, sigB] \<Longrightarrow>
   correlateSignals c 3000 [''cex_funding_detected'', ''rapid_deployment''] (Some 30000)"
  by (simp add: correlateSignals_def sigA_def sigB_def age_within_def)

lemma example_average: "calculateAverageConfidence exact_arith [sigA, sigB] = 1"
  by (simp add: calculateAverageConfidence_def exact_arith_ops sigA_def sigB_def
      confidence_or_0_def)

lemma example_first:
  "signalBuffer c = [sigA, sigB] \<Longrightarrow> \<exists>x. ruleResults exact_arith c 3000 cex_rapid_deploy = [x] \<and> c_type x = ''coordinated_launch_pattern''"
  by (simp add: ruleResults_unfold cex_rapid_deploy_def example_relevant example_correlate
      example_average emitCompositeSignal_def exact_arith_ops)

lemma example_second:
  "signalBuffer c = [sigA, sigB] \<Longrightarrow> \<exists>x. ruleResults exact_arith c 3000 second_rule = [x] \<and> c_type x = ''second_pattern''"
  by (simp add: ruleResults_unfold second_rule_def example_relevant example_correlate
      example_average emitCompositeSignal_def exact_arith_ops)

text \<open>
  An instance: the built-in funding rule and a third rule on the same two kinds both match;
  the call returns the composite of the built-in rule, and the third rule's composite and
  action are in the trace.
\<close>

theorem first_match_returned_witness:
  "(\<exists>composite. fst (fst (processSignal exact_arith 3000 sigB two_rules)) = Some composite \<and>
      c_type composite = ''coordinated_launch_pattern'') \<and>
   (\<exists>composite'. c_type composite' = ''second_pattern'' \<and>
      CompositeEmitted composite' \<in> set (snd (fst (processSignal exact_arith 3000 sigB two_rules)))) \<and>
   ActionExecuted ''second_rule'' [sigA, sigB] \<in> set (snd (fst (processSignal exact_arith 3000 sigB two_rules)))"
proof -
  let ?c = "snd (processSignal exact_arith 3000 sigB two_rules)"
  let ?out = "fst (processSignal exact_arith 3000 sigB two_rules)"
  obtain x where x: "ruleResults exact_arith ?c 3000 cex_rapid_deploy = [x]"
    and tx: "c_type x = ''coordinated_launch_pattern''"
    using example_first [OF two_rules_buffer] by blast
  obtain y where y: "ruleResults exact_arith ?c 3000 second_rule = [y]" and ty: "c_type y = ''second_pattern''"
    using example_second [OF two_rules_buffer] by blast
  have rel: "getRelevantSignals ?c 3000 (requiredSignals second_rule) (timeWindow second_rule) = [sigA, sigB]"
    using example_relevant [OF two_rules_buffer] by (simp add: second_rule_def)
  have a: "action second_rule" "cr_id second_rule = ''second_rule''"
    by (simp_all add: second_rule_def)
  from first_match_returned [where fp = exact_arith and now = 3000 and sig = sigB and ?c0.0 = two_rules
        and pre = "[]" and rule = cex_rapid_deploy
        and post = "[ghost_wallet_activation, second_rule]" and composite = x, OF refl refl]
    two_rules_rules x
  have "fst ?out = Some x \<and>
       (\<forall>r\<in>set [ghost_wallet_activation, second_rule]. \<forall>composite'.
          ruleResults exact_arith ?c 3000 r = [composite'] \<longrightarrow>
          CompositeEmitted composite' \<in> set (snd ?out) \<and>
          (action r \<longrightarrow>
             ActionExecuted (cr_id r) (getRelevantSignals ?c 3000 (requiredSignals r) (timeWindow r))
               \<in> set (snd ?out)))"
    by simp
  then have "fst ?out = Some x" "CompositeEmitted y \<in> set (snd ?out)"
    "ActionExecuted (cr_id second_rule)
       (getRelevantSignals ?c 3000 (requiredSignals second_rule) (timeWindow second_rule))
       \<in> set (snd ?out)"
    using y a(1) by auto
  then show ?thesis
    unfolding rel a(2) using tx ty by blast
qed

lemma age_within_stamped: "age_within now w = stamped_from (now - w)"
proof
  fix s show "age_within now w s = stamped_from (now - w) s"
    by (cases "timestamp s") (auto simp: age_within_def stamped_from_def)
qed

lemma registerSignal_buffer:
  "signalBuffer (snd (registerSignal fp now gi gh sig c)) =
     (let pushed = signalBuffer c @ [fullSignal now gi gh sig]
      in if int (length pushed) > bufferSize c then tl pushed else pushed)"
  by (simp add: registerSignal_def Let_def)

lemma registerSignal_frame:
  "bufferSize (snd (registerSignal fp now gi gh sig c)) = bufferSize c"
  "correlationRules (snd (registerSignal fp now gi gh sig c)) = correlationRules c"
  by (simp_all add: registerSignal_def Let_def)

lemma registerAll_frame:
  "bufferSize (registerAll fp inputs c) = bufferSize c"
  "correlationRules (registerAll fp inputs c) = correlationRules c"
  by (induction fp inputs c rule: registerAll.induct) (simp_all add: registerSignal_frame)

lemma registerAll_types:
  "(\<forall>s\<in>set (signalBuffer c). stype s = A) \<Longrightarrow>
   (\<forall>i\<in>set inputs. p_type (snd (snd (snd i))) = A) \<Longrightarrow>
   (\<forall>s\<in>set (signalBuffer (registerAll fp inputs c)). stype s = A)"
proof (induction fp inputs c rule: registerAll.induct)
  case (1 fp c)
  then show ?case by simp
next
  case (2 fp now gi gh sig rest c)
  have "\<forall>s\<in>set (signalBuffer (snd (registerSignal fp now gi gh sig c))). stype s = A"
  proof
    fix s assume "s \<in> set (signalBuffer (snd (registerSignal fp now gi gh sig c)))"
    then have "s \<in> set (signalBuffer c @ [fullSignal now gi gh sig])"
      by (auto simp: registerSignal_buffer Let_def split: if_splits dest: list.set_sel(2)[rotated])
    with 2 show "stype s = A" by (auto simp: fullSignal_def)
  qed
  with 2 show ?case by simp
qed

lemma missing_type_no_match:
  assumes "\<forall>s\<in>set (signalBuffer c). stype s = A" and "B \<in> set types" and "B \<noteq> A"
  shows "\<not> correlateSignals c now types w"
  using assms by (auto simp: correlateSignals_def Let_def list_all_iff)

text \<open>
  Claim C4. A rule with a non-zero window matches exactly when every required type is the
  type of some buffered signal that the window query returns for the rule's window. And for
  any coordinator built by the constructor and \<open>addCorrelationRule\<close>: after registering
  signals of kind \<open>A\<close> only, however many, a rule that requires a kind \<open>B\<close> other than \<open>A\<close> does
  not match, yields no composite and leaves no trace, at any time.
\<close>

theorem set_coverage:
  "(timeWindow rule \<noteq> 0 \<longrightarrow>
      correlateSignals c now (requiredSignals rule) (Some (timeWindow rule)) =
        (\<forall>t\<in>set (requiredSignals rule).
           \<exists>s\<in>set (getActiveSignals c now (Some (timeWindow rule))). stype s = t)) \<and>
   ((\<forall>i\<in>set inputs. p_type (snd (snd (snd i))) = A) \<and> B \<noteq> A \<and>
     rule \<in> set (correlationRules (newAgentCoordinator size')) \<union> set added \<and>
     B \<in> set (requiredSignals rule) \<longrightarrow>
      (let c' = registerAll fp inputs (foldl (\<lambda>c r. addCorrelationRule r c) (newAgentCoordinator size') added)
       in rule \<in> set (correlationRules c') \<and>
          \<not> correlateSignals c' now' (requiredSignals rule) (Some (timeWindow rule)) \<and>
          ruleResults fp c' now' rule = [] \<and> ruleTrace fp c' now' rule = []))"
proof -
  have one: "correlateSignals c now (requiredSignals rule) (Some (timeWindow rule)) =
        (\<forall>t\<in>set (requiredSignals rule).
           \<exists>s\<in>set (getActiveSignals c now (Some (timeWindow rule))). stype s = t)"
    if "timeWindow rule \<noteq> 0"
    using that by (auto simp: correlateSignals_iff getActiveSignals_def)
  have two: "(let c' = registerAll fp inputs (foldl (\<lambda>c r. addCorrelationRule r c) (newAgentCoordinator size') added)
       in rule \<in> set (correlationRules c') \<and>
          \<not> correlateSignals c' now' (requiredSignals rule) (Some (timeWindow rule)) \<and>
          ruleResults fp c' now' rule = [] \<and> ruleTrace fp c' now' rule = [])"
    if inputs: "\<forall>i\<in>set inputs. p_type (snd (snd (snd i))) = A" and ne: "B \<noteq> A"
      and mem: "rule \<in> set (correlationRules (newAgentCoordinator size')) \<union> set added"
      and req: "B \<in> set (requiredSignals rule)"
  proof -
    define c1 where "c1 = foldl (\<lambda>c r. addCorrelationRule r c) (newAgentCoordinator size') added"
    have gen: "signalBuffer (foldl (\<lambda>c r. addCorrelationRule r c) c0 rs) = signalBuffer c0 \<and>
        correlationRules (foldl (\<lambda>c r. addCorrelationRule r c) c0 rs) = correlationRules c0 @ rs"
      for c0 rs
      by (induction rs arbitrary: c0) (simp_all add: addCorrelationRule_def)
    have b1: "signalBuffer c1 = []"
      by (simp add: c1_def gen newAgentCoordinator_def)
    have r1: "rule \<in> set (correlationRules c1)"
      using mem by (simp add: c1_def gen)
    have all: "\<forall>s\<in>set (signalBuffer (registerAll fp inputs c1)). stype s = A"
      by (rule registerAll_types) (simp_all add: b1 inputs)
    have nm: "\<not> correlateSignals (registerAll fp inputs c1) now' (requiredSignals rule) (Some (timeWindow rule))"
      by (rule missing_type_no_match [OF all req ne])
    have "ruleResults fp (registerAll fp inputs c1) now' rule = []"
      by (simp add: ruleResults_unfold nm)
    moreover have "ruleTrace fp (registerAll fp inputs c1) now' rule = []"
      by (simp add: ruleTrace_unfold calculation)
    ultimately show ?thesis
      using nm r1 by (simp add: c1_def [symmetric] registerAll_frame)
  qed
  from one two show ?thesis by blast
qed

lemma push_evict_drop:
  assumes "int (length buf) \<le> cap"
  shows "(let pushed = buf @ [s] in if int (length pushed) > cap then tl pushed else pushed) =
     drop (length (buf @ [s]) - nat cap) (buf @ [s])"
proof (cases "int (length buf) = cap")
  case True
  then have "length (buf @ [s]) - nat cap = 1" by simp
  moreover have "tl (buf @ [s]) = drop 1 (buf @ [s])" by (cases buf) simp_all
  ultimately show ?thesis using True by (simp add: Let_def)
next
  case False
  with assms have "length (buf @ [s]) - nat cap = 0" by simp
  with False assms show ?thesis by (simp add: Let_def)
qed

lemma keep_last_fold:
  assumes "int (length buf) \<le> cap"
  shows "foldl (\<lambda>b s. let pushed = b @ [s] in if int (length pushed) > cap then tl pushed else pushed)
           buf xs = drop (length (buf @ xs) - nat cap) (buf @ xs)"
  using assms
proof (induction xs arbitrary: buf)
  case Nil
  then show ?case by simp
next
  case (Cons x xs)
  let ?b1 = "drop (length (buf @ [x]) - nat cap) (buf @ [x])"
  have len: "int (length ?b1) \<le> cap" using Cons.prems by auto
  have step: "(let pushed = buf @ [x] in if int (length pushed) > cap then tl pushed else pushed) = ?b1"
    by (rule push_evict_drop) (rule Cons.prems)
  have "drop (length (?b1 @ xs) - nat cap) (?b1 @ xs) =
      drop (length (buf @ x # xs) - nat cap) (buf @ x # xs)"
  proof (cases "int (length buf) = cap")
    case True
    then have k: "length (buf @ [x]) - nat cap = 1" by simp
    have "?b1 @ xs = drop 1 (buf @ x # xs)" unfolding k by (cases buf) simp_all
    moreover have "length (?b1 @ xs) - nat cap + 1 = length (buf @ x # xs) - nat cap"
      unfolding k using True by auto
    ultimately show ?thesis by (metis drop_drop)
  next
    case False
    with Cons.prems have "length (buf @ [x]) - nat cap = 0" by simp
    then show ?thesis by simp
  qed
  with Cons.IH [OF len] step show ?case by simp
qed

lemma registerAll_fold:
  "signalBuffer (registerAll fp inputs c) =
     foldl (\<lambda>b s. let pushed = b @ [s] in if int (length pushed) > bufferSize c then tl pushed else pushed)
       (signalBuffer c) (map pushed_signal inputs)"
  by (induction fp inputs c rule: registerAll.induct)
     (simp_all add: registerSignal_buffer registerSignal_frame pushed_signal_def)

lemma addSignal_frame:
  "signals (snd (addSignal now sig a)) =
     (let pushed = signals a @ [sig] in if int (length pushed) > maxSignals a then tl pushed else pushed)"
  "maxSignals (snd (addSignal now sig a)) = maxSignals a"
  "alertRules (snd (addSignal now sig a)) = alertRules a"
  by (simp_all add: addSignal_def checkAlerts_def Let_def split: prod.splits)

lemma addAll_fold:
  "signals (addAll inputs a) =
     foldl (\<lambda>b s. let pushed = b @ [s] in if int (length pushed) > maxSignals a then tl pushed else pushed)
       (signals a) (map snd inputs)"
  by (induction inputs a rule: addAll.induct) (simp_all add: addSignal_frame)

lemma keep_last_all_new:
  assumes "int (length buf) \<le> cap" and "cap < int (length xs)"
  shows "drop (length (buf @ xs) - nat cap) (buf @ xs) = drop (length xs - nat cap) xs"
    and "int (length (drop (length xs - nat cap) xs)) = cap"
  using assms by auto

lemma keep_last_length:
  assumes "int (length buf) \<le> cap"
  shows "int (length (drop (length (buf @ xs) - nat cap) (buf @ xs))) \<le> cap"
  using assms by auto

text \<open>
  Claim C3. Starting within capacity (as a new instance does), the buffer stays within
  capacity after every insertion; and after more insertions than the capacity it holds
  exactly capacity signals, the most recently inserted ones in insertion order. This holds
  of the coordinator buffer under \<open>registerSignal\<close> (capacity 1000 by default) and of the
  analytics history under \<open>addSignal\<close> (capacity 10000 by default).
\<close>

theorem bounded_history:
  "(int (length (signalBuffer c)) \<le> bufferSize c \<longrightarrow>
      (\<forall>k. int (length (signalBuffer (registerAll fp (take k inputs) c))) \<le> bufferSize c) \<and>
      (bufferSize c < int (length inputs) \<longrightarrow>
         signalBuffer (registerAll fp inputs c) =
           drop (length inputs - nat (bufferSize c)) (map pushed_signal inputs) \<and>
         int (length (signalBuffer (registerAll fp inputs c))) = bufferSize c)) \<and>
   (int (length (signals a)) \<le> maxSignals a \<longrightarrow>
      (\<forall>k. int (length (signals (addAll (take k added) a))) \<le> maxSignals a) \<and>
      (maxSignals a < int (length added) \<longrightarrow>
         signals (addAll added a) = drop (length added - nat (maxSignals a)) (map snd added) \<and>
         int (length (signals (addAll added a))) = maxSignals a)) \<and>
   signalBuffer (newAgentCoordinator None) = [] \<and> bufferSize (newAgentCoordinator None) = 1000 \<and>
   signals (newSignalAnalytics fp) = [] \<and> maxSignals (newSignalAnalytics fp) = 10000 \<and>
   (0 \<le> n \<longrightarrow> int (length (signalBuffer (newAgentCoordinator (Some n))))
      \<le> bufferSize (newAgentCoordinator (Some n))) \<and>
   (0 < n \<longrightarrow> int (length (signals (setMaxHistorySize n a))) \<le> maxSignals (setMaxHistorySize n a))"
proof -
  have coord: "(\<forall>k. int (length (signalBuffer (registerAll fp (take k inputs) c))) \<le> bufferSize c) \<and>
      (bufferSize c < int (length inputs) \<longrightarrow>
         signalBuffer (registerAll fp inputs c) =
           drop (length inputs - nat (bufferSize c)) (map pushed_signal inputs) \<and>
         int (length (signalBuffer (registerAll fp inputs c))) = bufferSize c)"
    if le: "int (length (signalBuffer c)) \<le> bufferSize c"
  proof -
    have buf: "signalBuffer (registerAll fp xs c) =
        drop (length (signalBuffer c @ map pushed_signal xs) - nat (bufferSize c))
          (signalBuffer c @ map pushed_signal xs)" for xs
      unfolding registerAll_fold by (rule keep_last_fold) (rule le)
    have "int (length (signalBuffer (registerAll fp (take k inputs) c))) \<le> bufferSize c" for k
      unfolding buf by (rule keep_last_length) (rule le)
    moreover have "signalBuffer (registerAll fp inputs c) =
           drop (length inputs - nat (bufferSize c)) (map pushed_signal inputs) \<and>
         int (length (signalBuffer (registerAll fp inputs c))) = bufferSize c"
      if "bufferSize c < int (length inputs)"
      unfolding buf
      using keep_last_all_new [of "signalBuffer c" "bufferSize c" "map pushed_signal inputs"] le that
      by simp
    ultimately show ?thesis by blast
  qed
  have ana: "(\<forall>k. int (length (signals (addAll (take k added) a))) \<le> maxSignals a) \<and>
      (maxSignals a < int (length added) \<longrightarrow>
         signals (addAll added a) = drop (length added - nat (maxSignals a)) (map snd added) \<and>
         int (length (signals (addAll added a))) = maxSignals a)"
    if le: "int (length (signals a)) \<le> maxSignals a"
  proof -
    have buf: "signals (addAll xs a) =
        drop (length (signals a @ map snd xs) - nat (maxSignals a)) (signals a @ map snd xs)" for xs
      unfolding addAll_fold by (rule keep_last_fold) (rule le)
    have "int (length (signals (addAll (take k added) a))) \<le> maxSignals a" for k
      unfolding buf by (rule keep_last_length) (rule le)
    moreover have "signals (addAll added a) = drop (length added - nat (maxSignals a)) (map snd added) \<and>
         int (length (signals (addAll added a))) = maxSignals a"
      if "maxSignals a < int (length added)"
      unfolding buf
      using keep_last_all_new [of "signals a" "maxSignals a" "map snd added"] le that
      by simp
    ultimately show ?thesis by blast
  qed
  have fresh: "signalBuffer (newAgentCoordinator None) = [] \<and> bufferSize (newAgentCoordinator None) = 1000 \<and>
     signals (newSignalAnalytics fp) = [] \<and> maxSignals (newSignalAnalytics fp) = 10000"
    by (simp add: newAgentCoordinator_def newSignalAnalytics_def)
  have sized: "int (length (signalBuffer (newAgentCoordinator (Some n))))
      \<le> bufferSize (newAgentCoordinator (Some n))" if "0 \<le> n"
    using that by (simp add: newAgentCoordinator_def)
  have resized: "int (length (signals (setMaxHistorySize n a))) \<le> maxSignals (setMaxHistorySize n a)"
    if "0 < n"
    using that by (auto simp: setMaxHistorySize_def slice_from_def Let_def)
  from coord ana fresh sized resized show ?thesis by blast
qed

theorem bounded_history_witness:
  "signalBuffer (registerAll exact_arith three_registrations (newAgentCoordinator (Some 2))) =
     [fullSignal 2000 ''id2'' ''hash2'' onlyA, fullSignal 3000 ''id3'' ''hash3'' onlyA] \<and>
   signals (addAll [(1000, sigA), (2000, sigB), (3000, sigFuture)]
              (setMaxHistorySize 2 (newSignalAnalytics exact_arith))) = [sigB, sigFuture]"
proof -
  let ?c = "newAgentCoordinator (Some 2)"
  let ?a = "setMaxHistorySize 2 (newSignalAnalytics exact_arith)"
  have c: "int (length (signalBuffer ?c)) \<le> bufferSize ?c" "bufferSize ?c = 2"
    by (simp_all add: newAgentCoordinator_def)
  have a: "int (length (signals ?a)) \<le> maxSignals ?a" "maxSignals ?a = 2"
    by (simp_all add: setMaxHistorySize_def newSignalAnalytics_def Let_def)
  have n: "bufferSize ?c < int (length three_registrations)"
    "maxSignals ?a < int (length [(1000::int, sigA), (2000, sigB), (3000, sigFuture)])"
    by (simp_all add: c a three_registrations_def)
  from bounded_history [where fp = exact_arith and c = ?c and inputs = three_registrations and a = ?a
      and added = "[(1000, sigA), (2000, sigB), (3000, sigFuture)]"]
    c(1) a(1) n
  have "signalBuffer (registerAll exact_arith three_registrations ?c) =
           drop (length three_registrations - nat (bufferSize ?c)) (map pushed_signal three_registrations)"
    and "signals (addAll [(1000, sigA), (2000, sigB), (3000, sigFuture)] ?a) =
           drop (length [(1000::int, sigA), (2000, sigB), (3000, sigFuture)] - nat (maxSignals ?a))
             (map snd [(1000::int, sigA), (2000, sigB), (3000, sigFuture)])"
    by blast+
  then show ?thesis
    unfolding c(2) a(2) by (simp add: three_registrations_def pushed_signal_def)
qed

theorem set_coverage_witness:
  "correlateSignals ((newAgentCoordinator None)\<lparr>signalBuffer := [sigA, sigB]\<rparr>) 3000
     [''cex_funding_detected'', ''rapid_deployment''] (Some 30000) \<and>
   ruleResults exact_arith (registerAll exact_arith three_registrations (newAgentCoordinator None)) 3000 cex_rapid_deploy = []"
proof -
  let ?c = "(newAgentCoordinator None)\<lparr>signalBuffer := [sigA, sigB]\<rparr>"
  have rule: "timeWindow cex_rapid_deploy \<noteq> 0" "timeWindow cex_rapid_deploy = 30000"
    "requiredSignals cex_rapid_deploy = [''cex_funding_detected'', ''rapid_deployment'']"
    by (simp_all add: cex_rapid_deploy_def)
  have act: "getActiveSignals ?c 3000 (Some 30000) = [sigA, sigB]"
    by (simp add: getActiveSignals_def sigA_def sigB_def age_within_def)
  have cov: "\<forall>t\<in>set [''cex_funding_detected'', ''rapid_deployment''].
      \<exists>s\<in>set (getActiveSignals ?c 3000 (Some 30000)). stype s = t"
    unfolding act by (simp add: sigA_def sigB_def)
  have inputs: "\<forall>i\<in>set three_registrations. p_type (snd (snd (snd i))) = ''cex_funding_detected''"
    by (simp add: three_registrations_def onlyA_def)
  have mem: "cex_rapid_deploy \<in> set (correlationRules (newAgentCoordinator None)) \<union> set []"
    by (simp add: newAgentCoordinator_def)
  have req: "''rapid_deployment'' \<in> set (requiredSignals cex_rapid_deploy)"
    "''rapid_deployment'' \<noteq> ''cex_funding_detected''"
    by (simp_all add: rule)
  note inst = set_coverage [where fp = exact_arith and rule = cex_rapid_deploy and c = ?c and now = 3000
      and inputs = three_registrations and A = "''cex_funding_detected''"
      and B = "''rapid_deployment''" and size' = None and added = "[]" and now' = 3000]
  from inst rule(1) cov have "correlateSignals ?c 3000 (requiredSignals cex_rapid_deploy)
      (Some (timeWindow cex_rapid_deploy))"
    unfolding rule(2,3) by blast
  moreover from inst inputs mem req
  have "ruleResults exact_arith (registerAll exact_arith three_registrations (newAgentCoordinator None)) 3000 cex_rapid_deploy = []"
    by (simp add: Let_def)
  ultimately show ?thesis by (simp add: rule)
qed

text \<open>
  Claim C7, as amended. The window queries of the coordinator keep, in buffer order, exactly
  the buffered signals whose timestamp parses and is not earlier than \<open>now - window\<close>;
  there is no upper bound. \<open>getRelevantSignals\<close> keeps of these the signals of a required
  type, and \<open>correlateSignals\<close> tests coverage over them, with the 60000 ms default in place
  of a window of 0.
\<close>

theorem window_query_lower_bound:
  "getActiveSignals c now (Some w) = filter (stamped_from (now - w)) (signalBuffer c) \<and>
   getRelevantSignals c now types w =
     filter (\<lambda>s. stype s \<in> set types) (filter (stamped_from (now - w)) (signalBuffer c)) \<and>
   correlateSignals c now types (Some w) =
     (\<forall>t\<in>set types. \<exists>s\<in>set (filter (stamped_from (now - (if w = 0 then 60000 else w)))
        (signalBuffer c)). stype s = t)"
  by (auto simp: getActiveSignals_def getRelevantSignals_def correlateSignals_iff
      age_within_stamped defaultTimeWindow_def conj_commute)

theorem window_query_lower_bound_witness:
  "getActiveSignals ((newAgentCoordinator None)\<lparr>signalBuffer := [sigA, sigFuture, sigB]\<rparr>) 40000 (Some 38500)
     = [sigFuture, sigB]"
  using window_query_lower_bound
    [of "(newAgentCoordinator None)\<lparr>signalBuffer := [sigA, sigFuture, sigB]\<rparr>" 40000 38500 "[]"]
  by (simp add: stamped_from_def sigA_def sigB_def sigFuture_def)

text \<open>
  A signal stamped 9000, later than \<open>now = 3000\<close>, is returned by each window query and
  counts towards coverage.
\<close>

theorem window_upper_bound_counterexample:
  "(3000::int) < 9000 \<and> timestamp sigFuture = ISO 9000 \<and>
   getActiveSignals ((newAgentCoordinator None)\<lparr>signalBuffer := [sigFuture]\<rparr>) 3000 (Some 30000)
     = [sigFuture] \<and>
   getRelevantSignals ((newAgentCoordinator None)\<lparr>signalBuffer := [sigFuture]\<rparr>) 3000
     [''cex_funding_detected''] 30000 = [sigFuture] \<and>
   correlateSignals ((newAgentCoordinator None)\<lparr>signalBuffer := [sigFuture]\<rparr>) 3000
     [''cex_funding_detected''] (Some 30000)"
  by (simp add: getActiveSignals_def getRelevantSignals_def correlateSignals_def sigFuture_def
      age_within_def Let_def)

text \<open>
  Claim C2 asks that a signal of confidence 1.5 be rejected and the history left as it was.
  Neither entry point validates: on a fresh coordinator and on a fresh analytics instance the
  signal is stored.
\<close>

theorem invalid_confidence_stored:
  "signalBuffer (newAgentCoordinator None) = [] \<and>
   signalBuffer (snd (registerSignal fp 1000 ''id1'' ''hash1'' overconfident (newAgentCoordinator None))) =
     [fullSignal 1000 ''id1'' ''hash1'' overconfident] \<and>
   confidence (fullSignal 1000 ''id1'' ''hash1'' overconfident) = Some (3 / 2) \<and>
   signals (newSignalAnalytics fp) = [] \<and>
   signals (snd (addSignal 1000 (fullSignal 1000 ''id1'' ''hash1'' overconfident) (newSignalAnalytics fp))) =
     [fullSignal 1000 ''id1'' ''hash1'' overconfident]"
  by (simp add: registerSignal_buffer addSignal_frame newAgentCoordinator_def
      newSignalAnalytics_def fullSignal_def overconfident_def Let_def)

section \<open>Properties of the analytics\<close>

lemma checkAlerts_loop_single:
  "checkAlerts_loop now sig [rule] la acc =
     (if alert_fires now sig la rule
      then (acc @ [triggerAlert now rule sig], assign_number (ar_id rule) now la) else (acc, la))"
  by (simp add: alert_fires_def in_cooldown_def Let_def)

lemma checkAlerts_loop_Cons:
  "checkAlerts_loop now sig (rule # rules) la acc =
     (if alert_fires now sig la rule
      then checkAlerts_loop now sig rules (assign_number (ar_id rule) now la)
             (acc @ [triggerAlert now rule sig])
      else checkAlerts_loop now sig rules la acc)"
  by (simp add: alert_fires_def in_cooldown_def Let_def)

lemma assign_number_other: "k' \<noteq> k \<Longrightarrow> assign_number k v la k' = la k'"
  by (simp add: assign_number_def)

lemma assign_number_same:
  "assign_number k v la k = (if k = ''__proto__'' \<and> la k = None then None else Some v)"
  by (auto simp: assign_number_def)

lemma alert_fires_other:
  "ar_id r \<noteq> k \<Longrightarrow> alert_fires now sig (assign_number k v la) r = alert_fires now sig la r"
  by (simp add: alert_fires_def in_cooldown_def lastAlert_or_0_def assign_number_other)

lemma checkAlerts_loop_distinct:
  "distinct (map ar_id rules) \<Longrightarrow>
   checkAlerts_loop now sig rules la acc =
     (acc @ map (\<lambda>r. triggerAlert now r sig) (filter (alert_fires now sig la) rules),
      foldl (\<lambda>m r. assign_number (ar_id r) now m) la (filter (alert_fires now sig la) rules))"
proof (induction rules arbitrary: la acc)
  case Nil
  then show ?case by simp
next
  case (Cons rule rules)
  have d: "distinct (map ar_id rules)" and notin: "\<forall>x\<in>set rules. ar_id x \<noteq> ar_id rule"
    using Cons.prems by (auto simp: image_iff)
  have same: "filter (alert_fires now sig (assign_number (ar_id rule) now la)) rules =
      filter (alert_fires now sig la) rules"
    using notin by (intro filter_cong refl alert_fires_other) auto
  show ?case
  proof (cases "alert_fires now sig la rule")
    case True
    then show ?thesis
      unfolding checkAlerts_loop_Cons Cons.IH [OF d] same by simp
  next
    case False
    then show ?thesis
      unfolding checkAlerts_loop_Cons Cons.IH [OF d] by simp
  qed
qed

lemma foldl_assign_number:
  "foldl (\<lambda>m r. assign_number (ar_id r) now m) la rs k =
     (if k \<in> ar_id ` set rs \<and> \<not> (k = ''__proto__'' \<and> la k = None) then Some now else la k)"
proof (induction rs arbitrary: la)
  case Nil
  then show ?case by simp
next
  case (Cons r rs)
  define la' where "la' = assign_number (ar_id r) now la"
  define blocked where "blocked m \<longleftrightarrow> k = ''__proto__'' \<and> m k = None" for m :: "string \<rightharpoonup> int"
  have step: "foldl (\<lambda>m r. assign_number (ar_id r) now m) la (r # rs) k =
      (if k \<in> ar_id ` set rs \<and> \<not> blocked la' then Some now else la' k)"
    unfolding blocked_def la'_def foldl_Cons by (rule Cons.IH)
  have goal: "(if k \<in> ar_id ` set (r # rs) \<and> \<not> (k = ''__proto__'' \<and> la k = None) then Some now else la k) =
      (if (ar_id r = k \<or> k \<in> ar_id ` set rs) \<and> \<not> blocked la then Some now else la k)"
    unfolding blocked_def by (simp add: eq_commute [of k "ar_id r"])
  show ?case
  proof (cases "ar_id r = k")
    case True
    have same: "la' k = (if blocked la then None else Some now)"
      unfolding la'_def blocked_def True [symmetric] by (rule assign_number_same)
    show ?thesis
    proof (cases "blocked la")
      case b: True
      then have "la k = None" unfolding blocked_def by blast
      moreover from b same have "la' k = None" by simp
      moreover from b \<open>la' k = None\<close> have "blocked la'" unfolding blocked_def by blast
      ultimately show ?thesis unfolding step goal using b by simp
    next
      case b: False
      with same have "la' k = Some now" by simp
      then have "\<not> blocked la'" unfolding blocked_def by auto
      then show ?thesis unfolding step goal using b True \<open>la' k = Some now\<close> by simp
    qed
  next
    case False
    then have "la' k = la k"
      unfolding la'_def by (simp add: assign_number_other)
    then have "blocked la' = blocked la" unfolding blocked_def by auto
    then show ?thesis unfolding step goal using False \<open>la' k = la k\<close> by simp
  qed
qed

lemma filter_unique_id:
  "distinct (map ar_id rules) \<Longrightarrow> rule \<in> set rules \<Longrightarrow>
   filter (\<lambda>r. P r \<and> ar_id r = ar_id rule) rules = (if P rule then [rule] else [])"
proof (induction rules)
  case Nil
  then show ?case by simp
next
  case (Cons r rules)
  show ?case
  proof (cases "r = rule")
    case True
    have "\<forall>x\<in>set rules. ar_id x \<noteq> ar_id rule" using Cons.prems True by (auto simp: image_iff)
    then have "filter (\<lambda>r. P r \<and> ar_id r = ar_id rule) rules = []"
      by (auto simp: filter_empty_conv)
    with True show ?thesis by simp
  next
    case False
    with Cons.prems have "rule \<in> set rules" "ar_id r \<noteq> ar_id rule" by force+
    with Cons show ?thesis by simp
  qed
qed

lemma addSignal_alerts:
  "addSignal now sig a =
     (fst (checkAlerts_loop now sig (alertRules a) (lastAlerts a) []),
      a\<lparr>signals := (let pushed = signals a @ [sig]
                     in if int (length pushed) > maxSignals a then tl pushed else pushed),
        lastAlerts := snd (checkAlerts_loop now sig (alertRules a) (lastAlerts a) [])\<rparr>)"
  by (simp add: addSignal_def checkAlerts_def Let_def split: prod.splits)

lemma alerts_of_rule:
  assumes d: "distinct (map ar_id (alertRules a))" and mem: "rule \<in> set (alertRules a)"
  shows "filter (\<lambda>al. ta_ruleId al = ar_id rule) (fst (addSignal now sig a)) =
           (if alert_fires now sig (lastAlerts a) rule then [triggerAlert now rule sig] else [])"
    and "lastAlerts (snd (addSignal now sig a)) (ar_id rule) =
           (if alert_fires now sig (lastAlerts a) rule \<and>
               \<not> (ar_id rule = ''__proto__'' \<and> lastAlerts a (ar_id rule) = None)
            then Some now else lastAlerts a (ar_id rule))"
proof -
  have f: "filter (\<lambda>al. ta_ruleId al = ar_id rule) (map (\<lambda>r. triggerAlert now r sig) rs) =
      map (\<lambda>r. triggerAlert now r sig) (filter (\<lambda>r. ar_id r = ar_id rule) rs)" for rs
    by (induction rs) (simp_all add: triggerAlert_def)
  show "filter (\<lambda>al. ta_ruleId al = ar_id rule) (fst (addSignal now sig a)) =
           (if alert_fires now sig (lastAlerts a) rule then [triggerAlert now rule sig] else [])"
    by (simp add: addSignal_alerts checkAlerts_loop_distinct [OF d] f filter_unique_id [OF d mem])
  have "ar_id rule \<in> ar_id ` set (filter (alert_fires now sig (lastAlerts a)) (alertRules a))
      \<longleftrightarrow> alert_fires now sig (lastAlerts a) rule"
  proof
    assume "ar_id rule \<in> ar_id ` set (filter (alert_fires now sig (lastAlerts a)) (alertRules a))"
    then obtain r where r: "r \<in> set (alertRules a)" "alert_fires now sig (lastAlerts a) r"
      "ar_id r = ar_id rule" by auto
    with d mem have "r = rule" by (meson distinct_map inj_onD)
    with r show "alert_fires now sig (lastAlerts a) rule" by simp
  next
    assume "alert_fires now sig (lastAlerts a) rule"
    with mem show "ar_id rule \<in> ar_id ` set (filter (alert_fires now sig (lastAlerts a)) (alertRules a))"
      by auto
  qed
  then show "lastAlerts (snd (addSignal now sig a)) (ar_id rule) =
           (if alert_fires now sig (lastAlerts a) rule \<and>
               \<not> (ar_id rule = ''__proto__'' \<and> lastAlerts a (ar_id rule) = None)
            then Some now else lastAlerts a (ar_id rule))"
    by (simp add: addSignal_alerts checkAlerts_loop_distinct [OF d] foldl_assign_number)
qed


text \<open>
  A rule whose id is \<open>__proto__\<close> never gets an entry in \<open>lastAlerts\<close>: it fires whenever it is
  enabled and its predicate holds, and leaves the table as it was.
\<close>

lemma proto_id_never_cools:
  assumes "ar_id rule = ''__proto__''" and "la ''__proto__'' = None"
    and "enabled rule" and "condition rule sig"
  shows "checkAlerts_loop now sig [rule] la acc = (acc @ [triggerAlert now rule sig], la)"
  using assms
  by (simp add: checkAlerts_loop_single alert_fires_def in_cooldown_def lastAlert_or_0_def
      object_prototype_names_def assign_number_def del: checkAlerts_loop.simps(2))


lemma launch_rule_facts:
  "ar_id launch_rule = ''high_confidence_launch''" "enabled launch_rule"
  "cooldown launch_rule = 30000" "condition launch_rule launch"
  "launch_rule \<in> set (alertRules (newSignalAnalytics exact_arith))"
  "distinct (map ar_id (alertRules (newSignalAnalytics exact_arith)))"
  "lastAlerts (newSignalAnalytics exact_arith) = Map.empty"
  by (simp_all add: launch_rule_def defaultAlertRules_def newSignalAnalytics_def launch_def
      confidence_or_0_def exact_arith_ops)

lemma launch_rule_due: "\<not> in_cooldown 100000 Map.empty launch_rule"
  by (simp add: in_cooldown_def lastAlert_or_0_def launch_rule_facts object_prototype_names_def)


lemma checkAlerts_loop_append:
  "checkAlerts_loop now sig (xs @ ys) la acc =
     (case checkAlerts_loop now sig xs la acc of (acc', la') \<Rightarrow> checkAlerts_loop now sig ys la' acc')"
  by (induction xs arbitrary: la acc) (simp_all add: checkAlerts_loop_Cons del: checkAlerts_loop.simps(2))

lemma checkAlerts_loop_untouched:
  "\<forall>x\<in>set xs. ar_id x \<noteq> k \<Longrightarrow> snd (checkAlerts_loop now sig xs la acc) k = la k"
  by (induction xs arbitrary: la acc)
     (auto simp add: checkAlerts_loop_Cons assign_number_def simp del: checkAlerts_loop.simps(2))

text \<open>
  Claim C10. \<open>removeAlertRule\<close> keeps exactly the rules with another id, as they are and in
  their order, drops the cooldown entry of the id and keeps every other entry, and leaves
  the history and its capacity alone. A rule added again under that id has no entry, so it
  counts as last fired at 0: if it is enabled, its predicate holds and \<open>cooldown \<le> now\<close>, it
  fires on the next signal whatever the entry of the removed rule was.
\<close>

theorem remove_alert_rule_frame:
  "alertRules (removeAlertRule rid a) = filter (\<lambda>r. ar_id r \<noteq> rid) (alertRules a) \<and>
   lastAlerts (removeAlertRule rid a) rid = None \<and>
   (\<forall>k. k \<noteq> rid \<longrightarrow> lastAlerts (removeAlertRule rid a) k = lastAlerts a k) \<and>
   signals (removeAlertRule rid a) = signals a \<and>
   maxSignals (removeAlertRule rid a) = maxSignals a \<and>
   (ar_id r = rid \<and> enabled r \<and> condition r sig \<and> cooldown r \<le> now \<longrightarrow>
      triggerAlert now r sig \<in> set (fst (addSignal now sig (addAlertRule r (removeAlertRule rid a)))))"
proof -
  have frame: "alertRules (removeAlertRule rid a) = filter (\<lambda>r. ar_id r \<noteq> rid) (alertRules a) \<and>
   lastAlerts (removeAlertRule rid a) rid = None \<and>
   (\<forall>k. k \<noteq> rid \<longrightarrow> lastAlerts (removeAlertRule rid a) k = lastAlerts a k) \<and>
   signals (removeAlertRule rid a) = signals a \<and>
   maxSignals (removeAlertRule rid a) = maxSignals a"
    by (simp add: removeAlertRule_def)
  have again: "triggerAlert now r sig \<in> set (fst (addSignal now sig (addAlertRule r (removeAlertRule rid a))))"
    if id: "ar_id r = rid" and en: "enabled r" and c: "condition r sig" and cd: "cooldown r \<le> now"
  proof -
    let ?rs = "filter (\<lambda>r. ar_id r \<noteq> rid) (alertRules a)"
    let ?la = "(lastAlerts a)(rid := None)"
    obtain acc' la' where l: "checkAlerts_loop now sig ?rs ?la [] = (acc', la')"
      by (cases "checkAlerts_loop now sig ?rs ?la []")
    have "snd (checkAlerts_loop now sig ?rs ?la []) rid = ?la rid"
      by (rule checkAlerts_loop_untouched) simp
    then have "la' rid = None" by (simp add: l)
    then have "alert_fires now sig la' r"
      using id en c cd by (simp add: alert_fires_def in_cooldown_def lastAlert_or_0_def)
    then have "fst (checkAlerts_loop now sig (?rs @ [r]) ?la []) = acc' @ [triggerAlert now r sig]"
      by (simp add: checkAlerts_loop_append l checkAlerts_loop_single del: checkAlerts_loop.simps(2))
    then show ?thesis
      by (simp add: addSignal_alerts addAlertRule_def removeAlertRule_def)
  qed
  from frame again show ?thesis by blast
qed

theorem remove_alert_rule_frame_witness:
  "lastAlerts (snd (addSignal 100000 launch (newSignalAnalytics exact_arith))) ''high_confidence_launch''
     = Some 100000 \<and>
   triggerAlert 100001 launch_rule launch \<in> set (fst (addSignal 100001 launch
     (addAlertRule launch_rule
        (removeAlertRule ''high_confidence_launch''
           (snd (addSignal 100000 launch (newSignalAnalytics exact_arith)))))))"
proof -
  have "alert_fires 100000 launch (lastAlerts (newSignalAnalytics exact_arith)) launch_rule"
    using launch_rule_due by (simp add: alert_fires_def launch_rule_facts)
  then have "lastAlerts (snd (addSignal 100000 launch (newSignalAnalytics exact_arith)))
      (ar_id launch_rule) = Some 100000"
    using alerts_of_rule(2) [OF launch_rule_facts(6) launch_rule_facts(5), of 100000 launch]
    by (simp add: launch_rule_facts(1))
  moreover have "ar_id launch_rule = ''high_confidence_launch'' \<and> enabled launch_rule \<and>
      condition launch_rule launch \<and> cooldown launch_rule \<le> 100001"
    by (simp add: launch_rule_facts)
  ultimately show ?thesis
    using remove_alert_rule_frame [of "''high_confidence_launch''"
        "snd (addSignal 100000 launch (newSignalAnalytics exact_arith))" launch_rule launch 100001]
    unfolding launch_rule_facts(1) by blast
qed

subsection \<open>Metrics snapshots\<close>

lemma windowMs_of_nonzero: "windowMs_of tw \<noteq> 0"
  by (simp add: windowMs_of_def split: option.splits)


text \<open>What the tables hold for keys that name members of \<open>Object.prototype\<close>.\<close>

lemma bump_prototype_keys:
  "bump ''__proto__'' [] = []"
  "bump ''constructor'' [] = [(''constructor'', Text ''function Object() { [native code] }1'')]"
  "bump ''launch_detected'' [] = [(''launch_detected'', Count 1)]"
  by (simp_all add: bump_def assign_cell_def object_prototype_names_def inherited_text_def)










text \<open>
  Claim C8. A snapshot over an empty history, or over a window that holds no signal, has
  \<open>totalSignals = 0\<close> and \<open>averageConfidence = 0\<close>; its rates are 0, its distribution and
  tables are empty and its time range is the current time at both ends. No division in a
  snapshot has a zero divisor: the window is never 0, and the mean is guarded by the count.
\<close>

theorem empty_snapshot:
  "(signals a = [] \<longrightarrow> in_window now tw a = []) \<and>
   (in_window now tw a = [] \<longrightarrow> getMetrics fp now tw a = empty_metrics now tw) \<and>
   totalSignals (empty_metrics now tw) = 0 \<and> averageConfidence (empty_metrics now tw) = 0 \<and>
   real_of_int (windowMs_of tw) / (1000 * 60 * 60) \<noteq> 0 \<and>
   real_of_int (windowMs_of tw) / 1000 \<noteq> 0"
proof -
  have "getMetrics fp now tw a = empty_metrics now tw" if "in_window now tw a = []"
    using that
    by (simp add: getMetrics_def in_window_def Let_def tally0_def empty_metrics_def
        timestamp_or_now_def object_entries_def)
  moreover have "in_window now tw a = []" if "signals a = []"
    using that by (simp add: in_window_def)
  ultimately show ?thesis
    using windowMs_of_nonzero [of tw] by (simp add: empty_metrics_def)
qed

lemma one_unscored_signals: "signals one_unscored = [unscored_signal]"
  by (simp add: one_unscored_def addSignal_frame newSignalAnalytics_def Let_def)

theorem empty_snapshot_witness:
  "getMetrics exact_arith 100000 None (newSignalAnalytics exact_arith) = empty_metrics 100000 None \<and>
   getMetrics exact_arith 200000 (Some 10) one_unscored = empty_metrics 200000 (Some 10)"
proof -
  have "signals (newSignalAnalytics exact_arith) = []"
    by (simp add: newSignalAnalytics_def)
  moreover have "in_window 200000 (Some 10) one_unscored = []"
    unfolding in_window_def one_unscored_signals
    by (simp add: unscored_signal_def age_within_def windowMs_of_def)
  ultimately show ?thesis
    using empty_snapshot [of "newSignalAnalytics exact_arith" 100000 None exact_arith]
      empty_snapshot [of one_unscored 200000 "Some 10" exact_arith]
    by blast
qed




end
